theory Spec2Isabelle
  imports Main "HOL-Library.Word"
begin

unbundle bit_operations_syntax

section \<open>Machine integers, durations and instants\<close>

text \<open>
  Go's \<open>int\<close> is 64 bits wide on the platforms the gateway is built for, and
  \<open>time.Duration\<close> is an \<open>int64\<close> count of nanoseconds. Both are modelled as
  \<open>int\<close> with the two's-complement wrap-around written out by \<open>wrap64\<close>.
\<close>

definition minInt64 :: int where
  "minInt64 = - 9223372036854775808"

definition maxInt64 :: int where
  "maxInt64 = 9223372036854775807"

definition wrap64 :: "int \<Rightarrow> int" where
  "wrap64 x = (x + 9223372036854775808) mod 18446744073709551616 - 9223372036854775808"

text \<open>Go's integer division truncates towards zero.\<close>

definition go_quot :: "int \<Rightarrow> int \<Rightarrow> int" where
  "go_quot a b = wrap64 (sgn a * sgn b * (\<bar>a\<bar> div \<bar>b\<bar>))"

definition Second :: int where
  "Second = 1000000000"

text \<open>
  \<open>time.Time.Sub\<close>: the difference of two instants (nanosecond readings of the clock),
  saturated to the range of a \<open>Duration\<close>.
\<close>

definition time_Sub :: "int \<Rightarrow> int \<Rightarrow> int" where
  "time_Sub t u =
     (let d = t - u
      in if d > maxInt64 then maxInt64 else if d < minInt64 then minInt64 else d)"

datatype panic = DivideByZero | NilDereference | TypeAssertion

section \<open>pkg/ratelimiter: the token bucket\<close>

record TokenBucketLimiter =
  capacity :: int
  tokens :: int
  refillRate :: int
  refillInterval :: int
  lastRefillTime :: int
  refillPerInterval :: int

text \<open>
  \<open>NewTokenBucketLimiter\<close>. The source computes
  \<open>refillRate := int(float64(requests) / interval.Seconds())\<close> in floating point; that
  one expression is the parameter \<open>rateOf\<close> (applied to the defaulted arguments), and
  everything else is the code. \<open>now\<close> is the reading of \<open>time.Now()\<close>.
\<close>

definition NewTokenBucketLimiter ::
  "(int \<Rightarrow> int \<Rightarrow> int) \<Rightarrow> int \<Rightarrow> int \<Rightarrow> int \<Rightarrow> TokenBucketLimiter" where
  "NewTokenBucketLimiter rateOf requests0 interval0 now =
     (let requests = (if requests0 \<le> 0 then 100 else requests0);
          interval = (if interval0 \<le> 0 then Second else interval0);
          rate = rateOf requests interval
      in if rate \<le> 0
         then \<lparr>capacity = requests, tokens = requests, refillRate = 1,
               refillInterval = go_quot Second requests,
               lastRefillTime = now, refillPerInterval = 1\<rparr>
         else \<lparr>capacity = requests, tokens = requests, refillRate = rate,
               refillInterval = interval,
               lastRefillTime = now, refillPerInterval = requests\<rparr>)"

text \<open>
  The quotient read exactly (the truncated value of \<open>requests\<close> per second), used
  where a concrete \<open>rateOf\<close> is needed.
\<close>

definition exactRate :: "int \<Rightarrow> int \<Rightarrow> int" where
  "exactRate requests interval = go_quot (requests * Second) interval"

text \<open>
  \<open>refill\<close>: the division \<open>elapsedTime / limiter.refillInterval\<close> panics when the
  interval is zero; the product and the sum wrap.
\<close>

definition refill :: "TokenBucketLimiter \<Rightarrow> int \<Rightarrow> panic + TokenBucketLimiter" where
  "refill limiter now =
     (let elapsedTime = time_Sub now (lastRefillTime limiter)
      in if elapsedTime \<ge> refillInterval limiter
         then if refillInterval limiter = 0 then Inl DivideByZero
              else
                (let intervals = go_quot elapsedTime (refillInterval limiter);
                     tokensToAdd = wrap64 (intervals * refillPerInterval limiter);
                     t1 = wrap64 (tokens limiter + tokensToAdd);
                     t2 = (if t1 > capacity limiter then capacity limiter else t1)
                 in Inr (limiter\<lparr>tokens := t2, lastRefillTime := now\<rparr>))
         else Inr limiter)"

definition Allow :: "TokenBucketLimiter \<Rightarrow> int \<Rightarrow> panic + (bool \<times> TokenBucketLimiter)" where
  "Allow limiter now =
     (case refill limiter now of
        Inl p \<Rightarrow> Inl p
      | Inr l1 \<Rightarrow>
          if tokens l1 > 0 then Inr (True, l1\<lparr>tokens := wrap64 (tokens l1 - 1)\<rparr>)
          else Inr (False, l1))"

text \<open>A sequence of \<open>Allow()\<close> calls, one per clock reading; a panic ends it.\<close>

fun Allow_seq :: "TokenBucketLimiter \<Rightarrow> int list \<Rightarrow> panic + (bool list \<times> TokenBucketLimiter)" where
  "Allow_seq limiter [] = Inr ([], limiter)"
| "Allow_seq limiter (now # nows) =
     (case Allow limiter now of
        Inl p \<Rightarrow> Inl p
      | Inr (ok, l1) \<Rightarrow>
          (case Allow_seq l1 nows of
             Inl p \<Rightarrow> Inl p
           | Inr (oks, l2) \<Rightarrow> Inr (ok # oks, l2)))"

text \<open>
  The bounds a limiter keeps, and the condition under which one refill stays inside
  64 bits: no whole interval has elapsed, or the tokens plus the refill fit.
\<close>

definition tokens_bounded :: "TokenBucketLimiter \<Rightarrow> bool" where
  "tokens_bounded l \<longleftrightarrow>
     0 \<le> tokens l \<and> tokens l \<le> capacity l \<and> capacity l \<le> maxInt64
     \<and> 0 \<le> refillInterval l \<and> 0 \<le> refillPerInterval l"

definition refill_fits :: "TokenBucketLimiter \<Rightarrow> int \<Rightarrow> bool" where
  "refill_fits l now \<longleftrightarrow>
     (let e = time_Sub now (lastRefillTime l)
      in e < refillInterval l
         \<or> tokens l + (e div refillInterval l) * refillPerInterval l \<le> maxInt64)"

fun refills_fit :: "TokenBucketLimiter \<Rightarrow> int list \<Rightarrow> bool" where
  "refills_fit l [] = True"
| "refills_fit l (now # nows) =
     (refill_fits l now \<and>
      (case Allow l now of Inl p \<Rightarrow> True | Inr (ok, l1) \<Rightarrow> refills_fit l1 nows))"

section \<open>HTTP values\<close>

text \<open>
  The fields of \<open>net/url.URL\<close>, \<open>net/http.Request\<close> and of the response that the
  gateway reads or writes. Strings are byte strings. A header has one value per name;
  \<open>ctx_timeout\<close> and \<open>ctx_claims\<close> are what the handlers put into the request's context.
\<close>

record url =
  url_Scheme :: string
  url_Host :: string
  url_Path :: string

record request =
  Method :: string
  URL :: url
  Host :: string
  Header :: "string \<rightharpoonup> string"
  ctx_timeout :: "int option"
  ctx_claims :: "(string \<times> string) list option"

record response =
  StatusCode :: int
  Body :: string

definition Header_Get :: "(string \<rightharpoonup> string) \<Rightarrow> string \<Rightarrow> string" where
  "Header_Get h k = (case h k of None \<Rightarrow> [] | Some v \<Rightarrow> v)"

definition Header_Set :: "(string \<rightharpoonup> string) \<Rightarrow> string \<Rightarrow> string \<Rightarrow> (string \<rightharpoonup> string)" where
  "Header_Set h k v = h(k \<mapsto> v)"

definition StatusUnauthorized :: int where "StatusUnauthorized = 401"
definition StatusNotFound :: int where "StatusNotFound = 404"
definition StatusBadGateway :: int where "StatusBadGateway = 502"

text \<open>\<open>http.Error\<close> writes the status and the message followed by a newline.\<close>

definition http_Error :: "string \<Rightarrow> int \<Rightarrow> response" where
  "http_Error msg code = \<lparr>StatusCode = code, Body = msg @ [CHR 0x0A]\<rparr>"

text \<open>The UTF-8 bytes of the response bodies the source writes.\<close>

definition msg_unauthorized :: string where
  "msg_unauthorized = [CHR 0xE6, CHR 0x9C, CHR 0xAA, CHR 0xE6, CHR 0x8E, CHR 0x88, CHR 0xE6, CHR 0x9D, CHR 0x83]"

definition msg_invalid_token :: string where
  "msg_invalid_token = [CHR 0xE6, CHR 0x97, CHR 0xA0, CHR 0xE6, CHR 0x95, CHR 0x88, CHR 0xE7, CHR 0x9A,
     CHR 0x84, CHR 0x54, CHR 0x6F, CHR 0x6B, CHR 0x65, CHR 0x6E]"

definition msg_proxy_error :: string where
  "msg_proxy_error = [CHR 0xE5, CHR 0x8F, CHR 0x8D, CHR 0xE5, CHR 0x90, CHR 0x91, CHR 0xE4, CHR 0xBB,
     CHR 0xA3, CHR 0xE7, CHR 0x90, CHR 0x86, CHR 0xE9, CHR 0x94, CHR 0x99, CHR 0xE8, CHR 0xAF, CHR 0xAF]"

definition msg_backend_unavailable :: string where
  "msg_backend_unavailable = [CHR 0xE5, CHR 0x90, CHR 0x8E, CHR 0xE7, CHR 0xAB, CHR 0xAF, CHR 0xE6,
     CHR 0x9C, CHR 0x8D, CHR 0xE5, CHR 0x8A, CHR 0xA1, CHR 0xE4, CHR 0xB8, CHR 0x8D, CHR 0xE5, CHR 0x8F,
     CHR 0xAF, CHR 0xE7, CHR 0x94, CHR 0xA8]"

section \<open>Logging\<close>

text \<open>
  A log line is its level, the message (named here by what it says) and its fields.
\<close>

datatype level = Debug | Info | Warn | Error

datatype message =
    UnknownAuthType | JWTMissingHeader | JWTParseFailed | JWTInvalid
  | ProxyError | ProxyRequestFailed
  | GetInstancesFailed | NoInstances | UsingDiscovery | UsingStaticTarget
  | TargetNotConfigured | TimeoutParseFailed | GetProxyFailed
  | RouteRegistered | RoutesLoaded
  | ConfigChanged | ConfigReloaded | ConfigReloadFailed

datatype log_entry = Log level message "(string \<times> string) list"

section \<open>internal/config\<close>

record RateLimitConfig =
  rl_Enabled :: bool
  rl_Requests :: int
  rl_Interval :: int

record JWTAuthConfig =
  SecretKey :: string

record OAuth2Config =
  oa_Enabled :: bool
  TokenEndpoint :: string
  ClientID :: string
  ClientSecret :: string

record AuthConfig =
  auth_Enabled :: bool
  auth_Type :: string
  auth_JWT :: JWTAuthConfig
  auth_OAuth2 :: OAuth2Config

record ConsulConfig =
  Address :: string

record ServiceDiscoveryConfig =
  sd_Enabled :: bool
  sd_Type :: string
  sd_Consul :: ConsulConfig

record JaegerConfig =
  jg_Enabled :: bool
  jg_ServiceName :: string
  AgentAddress :: string

record RouteConfig =
  route_Path :: string
  TargetURL :: string
  ServiceName :: string
  Timeout :: string

record Config =
  Port :: int
  LogLevel :: string
  RateLimit :: RateLimitConfig
  Auth :: AuthConfig
  ServiceDiscovery :: ServiceDiscoveryConfig
  Jaeger :: JaegerConfig
  Routes :: "RouteConfig list"

section \<open>Library functions taken as parameters\<close>

record jwt_Token =
  tok_MapClaims :: "(string \<times> string) list option"
  tok_Valid :: bool

text \<open>
  What the gateway calls outside its own code: \<open>url.Parse\<close>, \<open>strings.ToLower\<close>,
  \<open>time.ParseDuration\<close>, \<open>jwt.Parse\<close> (token string and HMAC secret),
  \<open>yaml.Unmarshal\<close> into a \<open>Config\<close>, and the transport's round trip to the backend.
  An error is the left summand.
\<close>

record env =
  url_Parse :: "string \<Rightarrow> string + url"
  strings_ToLower :: "string \<Rightarrow> string"
  time_ParseDuration :: "string \<Rightarrow> string + int"
  jwt_Parse :: "string \<Rightarrow> string \<Rightarrow> string + jwt_Token"
  yaml_Unmarshal :: "string \<Rightarrow> string + Config"
  RoundTrip :: "request \<Rightarrow> string + response"

section \<open>The gateway's shared state\<close>

text \<open>
  \<open>httputil.ReverseProxy\<close> objects live on a heap and are named by their address (the
  index into \<open>heap\<close>), because the cache and every route handler hold pointers to them.
  An error handler returns the line it logs and the response it writes.
\<close>

record httputil_ReverseProxy =
  Director :: "request \<Rightarrow> request"
  ErrorHandler :: "request \<Rightarrow> string \<Rightarrow> log_entry \<times> response"

text \<open>
  \<open>proxies\<close> is the map of \<open>proxy.ReverseProxy\<close>, \<open>currentCfg\<close> the global of
  \<open>main\<close>, \<open>logs\<close> what the logger has written, and \<open>sent\<close> the requests handed to
  the transport, in order.
\<close>

record world =
  heap :: "httputil_ReverseProxy list"
  proxies :: "string \<rightharpoonup> nat"
  currentCfg :: Config
  logs :: "log_entry list"
  sent :: "request list"

definition logger :: "level \<Rightarrow> message \<Rightarrow> (string \<times> string) list \<Rightarrow> world \<Rightarrow> world" where
  "logger lv m kvs w = w\<lparr>logs := logs w @ [Log lv m kvs]\<rparr>"

section \<open>Handlers\<close>

text \<open>
  An \<open>http.Handler\<close> interface value carries its dynamic type: the function type
  \<open>http.HandlerFunc\<close>, some other implementation, or nil. Serving a request takes the
  shared state to the new state and either a response or a panic.
\<close>

datatype 'f Handler = HandlerFunc 'f | OtherHandler 'f | NilHandler

type_synonym HandlerFn = "world \<Rightarrow> request \<Rightarrow> world \<times> (panic + response)"

definition ServeHTTP :: "HandlerFn Handler \<Rightarrow> HandlerFn" where
  "ServeHTTP h w r =
     (case h of HandlerFunc f \<Rightarrow> f w r | OtherHandler f \<Rightarrow> f w r | NilHandler \<Rightarrow> (w, Inl NilDereference))"

section \<open>internal/router\<close>

text \<open>
  The embedded \<open>mux.Router\<close> is its table of registered routes, in registration order.
\<close>

record 'f Router =
  mux_routes :: "(string \<times> 'f) list"
  middlewares :: "('f Handler \<Rightarrow> 'f Handler) list"

definition NewRouter :: "'f Router" where
  "NewRouter = \<lparr>mux_routes = [], middlewares = []\<rparr>"

definition Use :: "'f Router \<Rightarrow> ('f Handler \<Rightarrow> 'f Handler) \<Rightarrow> 'f Router" where
  "Use r middleware = r\<lparr>middlewares := middlewares r @ [middleware]\<rparr>"

text \<open>The type assertion \<open>.(http.HandlerFunc)\<close> panics on any other dynamic type.\<close>

definition assertHandlerFunc :: "'f Handler \<Rightarrow> panic + 'f" where
  "assertHandlerFunc h = (case h of HandlerFunc f \<Rightarrow> Inr f | _ \<Rightarrow> Inl TypeAssertion)"

text \<open>
  The loop of \<open>HandleFunc\<close>: \<open>for i := len(r.middlewares) - 1; i >= 0; i--\<close>.
\<close>

function applyMiddlewares :: "('f Handler \<Rightarrow> 'f Handler) list \<Rightarrow> int \<Rightarrow> 'f \<Rightarrow> panic + 'f" where
  "applyMiddlewares ms i handler =
     (if i \<ge> 0
      then (case assertHandlerFunc ((ms ! nat i) (HandlerFunc handler)) of
              Inl p \<Rightarrow> Inl p
            | Inr h \<Rightarrow> applyMiddlewares ms (i - 1) h)
      else Inr handler)"
  by pat_completeness auto
termination
  by (relation "measure (\<lambda>(ms, i, handler). nat (i + 1))") auto

declare applyMiddlewares.simps [simp del]

definition HandleFunc :: "'f Router \<Rightarrow> string \<Rightarrow> 'f \<Rightarrow> panic + 'f Router" where
  "HandleFunc r path handler =
     (case applyMiddlewares (middlewares r) (int (length (middlewares r)) - 1) handler of
        Inl p \<Rightarrow> Inl p
      | Inr h \<Rightarrow> Inr (r\<lparr>mux_routes := mux_routes r @ [(path, h)]\<rparr>))"

definition ClearRoutes :: "'f Router \<Rightarrow> 'f Router" where
  "ClearRoutes r = r\<lparr>mux_routes := []\<rparr>"

text \<open>
  Dispatch by the embedded router: the first registered route whose path is the
  request's path serves it, and no match is a 404.
\<close>

definition Router_ServeHTTP :: "HandlerFn Router \<Rightarrow> HandlerFn" where
  "Router_ServeHTTP r w req =
     (case find (\<lambda>(p, h). p = url_Path (URL req)) (mux_routes r) of
        None \<Rightarrow> (w, Inr (http_Error ''404 page not found'' StatusNotFound))
      | Some (p, h) \<Rightarrow> h w req)"

section \<open>internal/middleware: authentication\<close>

text \<open>\<open>strings.Replace(s, old, new, 1)\<close>: the first occurrence of \<open>old\<close> is replaced.\<close>

fun strings_Replace1 :: "string \<Rightarrow> string \<Rightarrow> string \<Rightarrow> string" where
  "strings_Replace1 [] old new = (if old = [] then new else [])"
| "strings_Replace1 (c # cs) old new =
     (if take (length old) (c # cs) = old then new @ drop (length old) (c # cs)
      else c # strings_Replace1 cs old new)"

definition jwtAuth :: "env \<Rightarrow> JWTAuthConfig \<Rightarrow> HandlerFn Handler \<Rightarrow> HandlerFn Handler" where
  "jwtAuth env jwtConfig next = HandlerFunc (\<lambda>w r.
     (let authHeader = Header_Get (Header r) ''Authorization''
      in if authHeader = []
         then (logger Warn JWTMissingHeader [(''path'', url_Path (URL r))] w,
               Inr (http_Error msg_unauthorized StatusUnauthorized))
         else
           (let tokenString = strings_Replace1 authHeader ''Bearer '' []
            in case jwt_Parse env tokenString (SecretKey jwtConfig) of
                 Inl err \<Rightarrow>
                   (logger Warn JWTParseFailed [(''path'', url_Path (URL r)), (''error'', err)] w,
                    Inr (http_Error msg_invalid_token StatusUnauthorized))
               | Inr token \<Rightarrow>
                   (case tok_MapClaims token of
                      Some claims \<Rightarrow>
                        if tok_Valid token
                        then ServeHTTP next w (r\<lparr>ctx_claims := Some claims\<rparr>)
                        else (logger Warn JWTInvalid [(''path'', url_Path (URL r))] w,
                              Inr (http_Error msg_invalid_token StatusUnauthorized))
                    | None \<Rightarrow>
                        (logger Warn JWTInvalid [(''path'', url_Path (URL r))] w,
                         Inr (http_Error msg_invalid_token StatusUnauthorized))))))"

text \<open>
  \<open>AuthMiddleware\<close>; \<open>getAuthConfig\<close> reads the configuration that is current when the
  request is served.
\<close>

definition AuthMiddleware ::
  "env \<Rightarrow> (world \<Rightarrow> AuthConfig) \<Rightarrow> HandlerFn Handler \<Rightarrow> HandlerFn Handler" where
  "AuthMiddleware env getAuthConfig next = HandlerFunc (\<lambda>w r.
     (let authConfig = getAuthConfig w
      in if \<not> auth_Enabled authConfig then ServeHTTP next w r
         else
           (let authType = strings_ToLower env (auth_Type authConfig)
            in if authType = ''jwt'' then ServeHTTP (jwtAuth env (auth_JWT authConfig) next) w r
               else if authType = ''oauth2'' then ServeHTTP next w r
               else if authType = ''none'' then ServeHTTP next w r
               else ServeHTTP next (logger Warn UnknownAuthType [(''auth_type'', authType)] w) r)))"

section \<open>internal/proxy: the cache of reverse proxies\<close>

definition GetProxy_Director :: "url \<Rightarrow> request \<Rightarrow> request" where
  "GetProxy_Director targetURL req =
     req\<lparr>URL := (URL req)\<lparr>url_Scheme := url_Scheme targetURL,
                             url_Host := url_Host targetURL,
                             url_Path := url_Path targetURL\<rparr>,
         Host := url_Host targetURL\<rparr>"

definition GetProxy_ErrorHandler :: "request \<Rightarrow> string \<Rightarrow> log_entry \<times> response" where
  "GetProxy_ErrorHandler r err =
     (Log Error ProxyError [(''path'', url_Path (URL r)), (''error'', err)],
      \<lparr>StatusCode = StatusBadGateway, Body = msg_proxy_error @ [CHR 0x0A]\<rparr>)"

text \<open>
  \<open>GetProxy\<close> runs under the mutex of the cache from its first statement to its return,
  so a call is one step on the shared state. It returns the address of the proxy.
\<close>

definition GetProxy :: "env \<Rightarrow> string \<Rightarrow> world \<Rightarrow> (string + nat) \<times> world" where
  "GetProxy env targetURLStr w =
     (case proxies w targetURLStr of
        Some p \<Rightarrow> (Inr p, w)
      | None \<Rightarrow>
          (case url_Parse env targetURLStr of
             Inl err \<Rightarrow> (Inl err, w)
           | Inr targetURL \<Rightarrow>
               (let proxy = \<lparr>Director = GetProxy_Director targetURL,
                             ErrorHandler = GetProxy_ErrorHandler\<rparr>;
                    p = length (heap w)
                in (Inr p, w\<lparr>heap := heap w @ [proxy],
                              proxies := (proxies w)(targetURLStr \<mapsto> p)\<rparr>))))"

section \<open>net/http/httputil: serving through a reverse proxy\<close>

text \<open>
  What \<open>httputil.ReverseProxy.ServeHTTP\<close> does with the two fields the gateway sets:
  the director rewrites the outgoing request, the transport carries it to the backend,
  a transport error goes to the error handler, and a backend response is copied to the
  client.
\<close>

definition httputil_ServeHTTP :: "env \<Rightarrow> nat \<Rightarrow> HandlerFn" where
  "httputil_ServeHTTP env p w req =
     (if p < length (heap w)
      then
        (let proxy = heap w ! p;
             outreq = Director proxy req;
             w1 = w\<lparr>sent := sent w @ [outreq]\<rparr>
         in case RoundTrip env outreq of
              Inl err \<Rightarrow>
                (let (entry, resp) = ErrorHandler proxy outreq err
                 in (w1\<lparr>logs := logs w1 @ [entry]\<rparr>, Inr resp))
            | Inr resp \<Rightarrow> (w1, Inr resp))
      else (w, Inl NilDereference))"

section \<open>internal/handler\<close>

definition ProxyHandler_director :: "string \<Rightarrow> request \<Rightarrow> request" where
  "ProxyHandler_director targetURL req =
     req\<lparr>URL := (URL req)\<lparr>url_Scheme := ''http'', url_Host := targetURL\<rparr>,
         Host := targetURL,
         Header := Header_Set (Header req) ''X-Gateway-Request'' ''true''\<rparr>"

definition ProxyHandler_errorHandler :: "string \<Rightarrow> request \<Rightarrow> string \<Rightarrow> log_entry \<times> response" where
  "ProxyHandler_errorHandler targetURL req err =
     (Log Error ProxyRequestFailed
        [(''path'', url_Path (URL req)), (''target_url'', targetURL), (''error'', err)],
      \<lparr>StatusCode = StatusBadGateway, Body = msg_backend_unavailable\<rparr>)"

text \<open>
  \<open>ProxyHandler\<close>: the returned function attaches the timeout to the request's context,
  assigns both fields of the proxy it was given, and serves through it.
\<close>

definition ProxyHandler :: "env \<Rightarrow> nat \<Rightarrow> string \<Rightarrow> int \<Rightarrow> HandlerFn" where
  "ProxyHandler env proxy targetURL timeout = (\<lambda>w r.
     if proxy < length (heap w)
     then
       (let ctx = r\<lparr>ctx_timeout := Some timeout\<rparr>;
            w1 = w\<lparr>heap := (heap w)[proxy := (heap w ! proxy)\<lparr>Director := ProxyHandler_director targetURL\<rparr>]\<rparr>;
            w2 = w1\<lparr>heap := (heap w1)[proxy := (heap w1 ! proxy)\<lparr>ErrorHandler := ProxyHandler_errorHandler targetURL\<rparr>]\<rparr>
        in httputil_ServeHTTP env proxy w2 ctx)
     else (w, Inl NilDereference))"

section \<open>internal/service/consul\<close>

record ServiceInstance =
  ID :: string
  inst_Host :: string
  inst_Port :: int
  Meta :: "(string \<times> string) list"

text \<open>
  The \<open>ServiceDiscovery\<close> interface value that \<open>main\<close> passes around is nil when
  discovery is off; otherwise it is its \<open>GetServiceInstances\<close> method.
\<close>

type_synonym ServiceDiscovery = "(string \<Rightarrow> string + ServiceInstance list) option"

section \<open>cmd/gateway: loading the routes\<close>

text \<open>Decimal digits of an integer, as \<open>%d\<close> prints them.\<close>

definition digit :: "nat \<Rightarrow> char" where
  "digit n = ''0123456789'' ! n"

function decimal :: "nat \<Rightarrow> string" where
  "decimal n = (if n < 10 then [digit n] else decimal (n div 10) @ [digit (n mod 10)])"
  by pat_completeness auto
termination
  by (relation "measure (\<lambda>n. n)") auto

declare decimal.simps [simp del]

definition Itoa :: "int \<Rightarrow> string" where
  "Itoa i = (if i < 0 then CHR ''-'' # decimal (nat (- i)) else decimal (nat i))"

text \<open>The body of the loop of \<open>loadRoutes\<close>, for one route; \<open>continue\<close> returns.\<close>

definition loadRoutes_body ::
  "env \<Rightarrow> ServiceDiscovery \<Rightarrow> RouteConfig \<Rightarrow> HandlerFn Router \<times> world
     \<Rightarrow> panic + HandlerFn Router \<times> world" where
  "loadRoutes_body env serviceDiscovery route rw =
     (let (r, w) = rw;
          resolved =
            (case (if ServiceName route \<noteq> [] then serviceDiscovery else None) of
               Some GetServiceInstances \<Rightarrow>
                 (case GetServiceInstances (ServiceName route) of
                    Inl err \<Rightarrow>
                      (None, logger Error GetInstancesFailed
                               [(''service_name'', ServiceName route), (''error'', err)] w)
                  | Inr [] \<Rightarrow>
                      (None, logger Warn NoInstances [(''service_name'', ServiceName route)] w)
                  | Inr (inst # rest) \<Rightarrow>
                      (let targetURL = ''http://'' @ inst_Host inst @ '':'' @ Itoa (inst_Port inst)
                       in (Some targetURL,
                           logger Debug UsingDiscovery
                             [(''path'', route_Path route), (''service_name'', ServiceName route),
                              (''target_url'', targetURL)] w)))
             | None \<Rightarrow>
                 (Some (TargetURL route),
                  logger Debug UsingStaticTarget
                    [(''path'', route_Path route), (''target_url'', TargetURL route)] w))
      in case resolved of
           (None, w1) \<Rightarrow> Inr (r, w1)
         | (Some targetURL, w1) \<Rightarrow>
             if targetURL = []
             then Inr (r, logger Warn TargetNotConfigured [(''path'', route_Path route)] w1)
             else
               (let (timeout, w2) =
                      (case time_ParseDuration env (Timeout route) of
                         Inl err \<Rightarrow>
                           (10 * Second,
                            logger Warn TimeoutParseFailed
                              [(''path'', route_Path route), (''error'', err)] w1)
                       | Inr d \<Rightarrow> (d, w1))
                in case GetProxy env targetURL w2 of
                     (Inl err, w3) \<Rightarrow>
                       Inr (r, logger Error GetProxyFailed
                                 [(''target_url'', targetURL), (''error'', err)] w3)
                   | (Inr getProxy, w3) \<Rightarrow>
                       (case HandleFunc r (route_Path route)
                               (ProxyHandler env getProxy targetURL timeout) of
                          Inl p \<Rightarrow> Inl p
                        | Inr r1 \<Rightarrow>
                            Inr (r1, logger Info RouteRegistered
                                       [(''path'', route_Path route), (''target_url'', targetURL),
                                        (''timeout'', Itoa timeout)] w3))))"

fun loadRoutes_loop ::
  "env \<Rightarrow> ServiceDiscovery \<Rightarrow> RouteConfig list \<Rightarrow> HandlerFn Router \<times> world
     \<Rightarrow> panic + HandlerFn Router \<times> world" where
  "loadRoutes_loop env serviceDiscovery [] rw = Inr rw"
| "loadRoutes_loop env serviceDiscovery (route # routes) rw =
     (case loadRoutes_body env serviceDiscovery route rw of
        Inl p \<Rightarrow> Inl p
      | Inr rw1 \<Rightarrow> loadRoutes_loop env serviceDiscovery routes rw1)"

definition loadRoutes ::
  "env \<Rightarrow> ServiceDiscovery \<Rightarrow> HandlerFn Router \<Rightarrow> world \<Rightarrow> panic + HandlerFn Router \<times> world" where
  "loadRoutes env serviceDiscovery r w =
     (let routes = Routes (currentCfg w);
          r1 = ClearRoutes r
      in case loadRoutes_loop env serviceDiscovery routes (r1, w) of
           Inl p \<Rightarrow> Inl p
         | Inr (r2, w2) \<Rightarrow>
             Inr (r2, logger Info RoutesLoaded [(''route_count'', Itoa (int (length routes)))] w2))"

section \<open>cmd/gateway: reloading the configuration\<close>

definition LoadConfig :: "env \<Rightarrow> (string \<Rightarrow> string + string) \<Rightarrow> string \<Rightarrow> string + Config" where
  "LoadConfig env ReadFile path =
     (case ReadFile path of
        Inl err \<Rightarrow> Inl err
      | Inr file \<Rightarrow>
          (case yaml_Unmarshal env file of
             Inl err \<Rightarrow> Inl err
           | Inr cfg \<Rightarrow> Inr cfg))"

definition updateConfig :: "Config \<Rightarrow> world \<Rightarrow> world" where
  "updateConfig cfg w = w\<lparr>currentCfg := cfg\<rparr>"

text \<open>An \<open>fsnotify.Event\<close>: the file's name and the bit set of operations.\<close>

record Event =
  ev_Name :: string
  ev_Op :: "32 word"

definition fsnotify_Create :: "32 word" where "fsnotify_Create = 1"
definition fsnotify_Write :: "32 word" where "fsnotify_Write = 2"
definition fsnotify_Remove :: "32 word" where "fsnotify_Remove = 4"
definition fsnotify_Rename :: "32 word" where "fsnotify_Rename = 8"

text \<open>
  What the goroutine of \<open>watchConfigChanges\<close> does with one event received from
  \<open>watcher.Events\<close>; \<open>ReadFile\<close> is the file system at that moment.
\<close>

definition watchConfigChanges_event ::
  "env \<Rightarrow> ServiceDiscovery \<Rightarrow> (string \<Rightarrow> string + string) \<Rightarrow> string \<Rightarrow> Event
     \<Rightarrow> HandlerFn Router \<times> world \<Rightarrow> panic + HandlerFn Router \<times> world" where
  "watchConfigChanges_event env serviceDiscovery ReadFile configPath event rw =
     (let (r, w) = rw
      in if ev_Op event AND fsnotify_Write = fsnotify_Write
            \<or> ev_Op event AND fsnotify_Create = fsnotify_Create
            \<or> ev_Op event AND fsnotify_Remove = fsnotify_Remove
            \<or> ev_Op event AND fsnotify_Rename = fsnotify_Rename
         then
           (let w1 = logger Info ConfigChanged [(''file'', ev_Name event)] w
            in case LoadConfig env ReadFile configPath of
                 Inr newCfg \<Rightarrow>
                   (case loadRoutes env serviceDiscovery r (updateConfig newCfg w1) of
                      Inl p \<Rightarrow> Inl p
                    | Inr (r2, w2) \<Rightarrow> Inr (r2, logger Info ConfigReloaded [] w2))
               | Inl err \<Rightarrow> Inr (r, logger Error ConfigReloadFailed [(''error'', err)] w1))
         else Inr (r, w))"

section \<open>Goroutines calling Allow on one limiter\<close>

text \<open>
  \<open>TokenBucketLimiter\<close> has no lock and \<open>Allow\<close> takes none, so calls made by
  different request goroutines interleave between statements. A call is followed
  through three points: the call of \<open>refill\<close>, the test \<open>limiter.tokens > 0\<close>, and
  the decrement with \<open>return true\<close>. Each is taken as one step on the shared limiter,
  which allows fewer interleavings than the statements of the source do.
\<close>

datatype pc = AtRefill | AtCheck | AtDecrement | Returned bool | Panicked panic

record goroutine =
  g_pc :: pc
  g_now :: int

definition Allow_call :: "int \<Rightarrow> goroutine" where
  "Allow_call now = \<lparr>g_pc = AtRefill, g_now = now\<rparr>"

definition Allow_step :: "TokenBucketLimiter \<Rightarrow> goroutine \<Rightarrow> (TokenBucketLimiter \<times> goroutine) option" where
  "Allow_step limiter g =
     (case g_pc g of
        AtRefill \<Rightarrow>
          (case refill limiter (g_now g) of
             Inl p \<Rightarrow> Some (limiter, g\<lparr>g_pc := Panicked p\<rparr>)
           | Inr l1 \<Rightarrow> Some (l1, g\<lparr>g_pc := AtCheck\<rparr>))
      | AtCheck \<Rightarrow>
          Some (limiter, g\<lparr>g_pc := (if tokens limiter > 0 then AtDecrement else Returned False)\<rparr>)
      | AtDecrement \<Rightarrow>
          Some (limiter\<lparr>tokens := wrap64 (tokens limiter - 1)\<rparr>, g\<lparr>g_pc := Returned True\<rparr>)
      | Returned ok \<Rightarrow> None
      | Panicked p \<Rightarrow> None)"

text \<open>
  A schedule names, step by step, the goroutine that runs next; a goroutine that has
  returned, or an index with no goroutine, leaves the state as it is.
\<close>

fun run_schedule ::
  "nat list \<Rightarrow> TokenBucketLimiter \<times> goroutine list \<Rightarrow> TokenBucketLimiter \<times> goroutine list" where
  "run_schedule [] c = c"
| "run_schedule (i # is) (limiter, gs) =
     (if i < length gs
      then (case Allow_step limiter (gs ! i) of
              None \<Rightarrow> run_schedule is (limiter, gs)
            | Some (l1, g1) \<Rightarrow> run_schedule is (l1, gs[i := g1]))
      else run_schedule is (limiter, gs))"

section \<open>What a request can observe while the routes are reloaded\<close>

text \<open>
  \<open>loadRoutes\<close> works on the router that is serving requests: it empties the table
  and then registers the routes one at a time, and the server reads the table without
  a lock. The states a request can meet are the one after \<open>ClearRoutes\<close> and the one
  after each pass of the loop.
\<close>

fun loadRoutes_loop_states ::
  "env \<Rightarrow> ServiceDiscovery \<Rightarrow> RouteConfig list \<Rightarrow> HandlerFn Router \<times> world
     \<Rightarrow> (HandlerFn Router \<times> world) list" where
  "loadRoutes_loop_states env serviceDiscovery [] rw = []"
| "loadRoutes_loop_states env serviceDiscovery (route # routes) rw =
     (case loadRoutes_body env serviceDiscovery route rw of
        Inl p \<Rightarrow> []
      | Inr rw1 \<Rightarrow> rw1 # loadRoutes_loop_states env serviceDiscovery routes rw1)"

definition loadRoutes_states ::
  "env \<Rightarrow> ServiceDiscovery \<Rightarrow> HandlerFn Router \<Rightarrow> world \<Rightarrow> (HandlerFn Router \<times> world) list" where
  "loadRoutes_states env serviceDiscovery r w =
     (ClearRoutes r, w) #
       loadRoutes_loop_states env serviceDiscovery (Routes (currentCfg w)) (ClearRoutes r, w)"

section \<open>The composition the specification describes\<close>

text \<open>
  The middleware pipeline in the specification's words: the chain is built from the
  inside out, so the first-declared middleware is applied last and wraps all the
  others around the terminal handler. Each application passes the type assertion of
  \<open>HandleFunc\<close>.
\<close>

fun spec_compose :: "('f Handler \<Rightarrow> 'f Handler) list \<Rightarrow> 'f \<Rightarrow> panic + 'f" where
  "spec_compose [] handler = Inr handler"
| "spec_compose (m # ms) handler =
     (case spec_compose ms handler of
        Inl p \<Rightarrow> Inl p
      | Inr inner \<Rightarrow> assertHandlerFunc (m (HandlerFunc inner)))"

section \<open>A concrete environment for the closed examples\<close>

definition ascii_lower :: "char \<Rightarrow> char" where
  "ascii_lower c =
     (let n = (of_char c :: nat) in if 65 \<le> n \<and> n \<le> 90 then char_of (n + 32) else c)"

definition example_env :: env where
  "example_env =
     \<lparr>url_Parse = (\<lambda>s. if take 7 s = ''http://''
                        then Inr \<lparr>url_Scheme = ''http'',
                                  url_Host = takeWhile (\<lambda>c. c \<noteq> CHR ''/'') (drop 7 s),
                                  url_Path = dropWhile (\<lambda>c. c \<noteq> CHR ''/'') (drop 7 s)\<rparr>
                        else Inl ''unsupported''),
      strings_ToLower = map ascii_lower,
      time_ParseDuration = (\<lambda>s. if s = ''5s'' then Inr (5 * Second) else Inl ''invalid duration''),
      jwt_Parse = (\<lambda>tokenString secret. Inl ''token is malformed''),
      yaml_Unmarshal = (\<lambda>file. Inl ''cannot unmarshal''),
      RoundTrip = (\<lambda>req. if url_Host (URL req) = ''10.0.0.5:9000''
                         then Inr \<lparr>StatusCode = 200, Body = ''ok''\<rparr>
                         else Inl ''dial tcp: lookup failed'')\<rparr>"

definition example_cfg :: Config where
  "example_cfg =
     \<lparr>Port = 8000, LogLevel = ''info'',
      RateLimit = \<lparr>rl_Enabled = True, rl_Requests = 1000, rl_Interval = Second\<rparr>,
      Auth = \<lparr>auth_Enabled = True, auth_Type = ''OAuth2'',
               auth_JWT = \<lparr>SecretKey = ''secret''\<rparr>,
               auth_OAuth2 = \<lparr>oa_Enabled = False, TokenEndpoint = [], ClientID = [], ClientSecret = []\<rparr>\<rparr>,
      ServiceDiscovery = \<lparr>sd_Enabled = True, sd_Type = ''consul'', sd_Consul = \<lparr>Address = ''localhost:8500''\<rparr>\<rparr>,
      Jaeger = \<lparr>jg_Enabled = False, jg_ServiceName = ''api-gateway'', AgentAddress = ''localhost:6831''\<rparr>,
      Routes = [\<lparr>route_Path = ''/api/users'', TargetURL = [], ServiceName = ''user-service'', Timeout = ''5s''\<rparr>]\<rparr>"

definition example_world :: world where
  "example_world = \<lparr>heap = [], proxies = Map.empty, currentCfg = example_cfg, logs = [], sent = []\<rparr>"

definition example_discovery :: ServiceDiscovery where
  "example_discovery =
     Some (\<lambda>serviceName. Inr [\<lparr>ID = ''user-1'', inst_Host = ''10.0.0.5'', inst_Port = 9000, Meta = []\<rparr>])"

definition example_request :: request where
  "example_request =
     \<lparr>Method = ''GET'', URL = \<lparr>url_Scheme = [], url_Host = [], url_Path = ''/api/users''\<rparr>,
      Host = ''gateway.local'', Header = Map.empty, ctx_timeout = None, ctx_claims = None\<rparr>"

text \<open>A sequence of \<open>GetProxy\<close> calls, the results dropped.\<close>

fun GetProxy_seq :: "env \<Rightarrow> string list \<Rightarrow> world \<Rightarrow> world" where
  "GetProxy_seq env [] w = w"
| "GetProxy_seq env (t # ts) w = GetProxy_seq env ts (snd (GetProxy env t w))"

text \<open>The example state after the first \<open>GetProxy\<close> for the resolved target.\<close>

definition example_cached :: world where
  "example_cached =
     example_world\<lparr>heap := [\<lparr>Director = GetProxy_Director
                                  \<lparr>url_Scheme = ''http'', url_Host = ''10.0.0.5:9000'', url_Path = []\<rparr>,
                               ErrorHandler = GetProxy_ErrorHandler\<rparr>],
                   proxies := [''http://10.0.0.5:9000'' \<mapsto> 0]\<rparr>"

text \<open>
  The state after \<open>loadRoutes\<close> has registered the example route: one proxy on the
  heap, cached under the formatted target, and the two log lines of the loop body.
\<close>

definition example_loaded :: "url \<Rightarrow> int \<Rightarrow> world \<Rightarrow> world" where
  "example_loaded u d w =
     w\<lparr>heap := heap w @ [\<lparr>Director = GetProxy_Director u, ErrorHandler = GetProxy_ErrorHandler\<rparr>],
       proxies := (proxies w)(''http://10.0.0.5:9000'' \<mapsto> length (heap w)),
       logs := logs w @
         [Log Debug UsingDiscovery
            [(''path'', ''/api/users''), (''service_name'', ''user-service''),
             (''target_url'', ''http://10.0.0.5:9000'')],
          Log Info RouteRegistered
            [(''path'', ''/api/users''), (''target_url'', ''http://10.0.0.5:9000''),
             (''timeout'', Itoa d)]]\<rparr>"

text \<open>The router and the state of the example gateway once its route is loaded.\<close>

definition example_router :: "env \<Rightarrow> HandlerFn Router" where
  "example_router env =
     \<lparr>mux_routes = [(''/api/users'', ProxyHandler env 0 ''http://10.0.0.5:9000'' (5 * Second))],
      middlewares = []\<rparr>"

definition example_serving :: world where
  "example_serving =
     logger Info RoutesLoaded [(''route_count'', Itoa 1)]
       (example_loaded \<lparr>url_Scheme = ''http'', url_Host = ''10.0.0.5:9000'', url_Path = []\<rparr>
          (5 * Second) example_world)"

section \<open>Properties of the token bucket\<close>

lemma wrap64_id: "minInt64 \<le> x \<Longrightarrow> x \<le> maxInt64 \<Longrightarrow> wrap64 x = x"
  by (simp add: wrap64_def minInt64_def maxInt64_def)

text \<open>
  Claim C4 (token count within \<open>[0, capacity]\<close> for every sequence of \<open>Allow()\<close>
  calls at arbitrary clock readings). The refill computes
  \<open>intervals * refillPerInterval\<close> and adds it to \<open>tokens\<close> in 64-bit arithmetic
  before comparing with the capacity. For a limiter of 1000 requests per nanosecond
  interval that has been idle for 9223372036854775 ns (about 107 days), the sum passes
  \<open>2^63\<close> and wraps: the cap does not apply to a negative number, the call is denied
  and the token count is left at \<open>-9223372036854775616\<close>.
\<close>

theorem Allow_overflow_negative_tokens:
  assumes "0 < rateOf 1000 1"
  shows "Allow (NewTokenBucketLimiter rateOf 1000 1 0) 9223372036854775 =
           Inr (False, \<lparr>capacity = 1000, tokens = - 9223372036854775616,
                            refillRate = rateOf 1000 1, refillInterval = 1,
                            lastRefillTime = 9223372036854775, refillPerInterval = 1000\<rparr>)"
proof -
  have new: "NewTokenBucketLimiter rateOf 1000 1 0 =
      \<lparr>capacity = 1000, tokens = 1000, refillRate = rateOf 1000 1, refillInterval = 1,
       lastRefillTime = 0, refillPerInterval = 1000\<rparr>"
    using assms by (simp add: NewTokenBucketLimiter_def Let_def)
  have q: "go_quot 9223372036854775 1 = 9223372036854775"
    by (simp add: go_quot_def wrap64_def)
  have r: "refill \<lparr>capacity = 1000, tokens = 1000, refillRate = rateOf 1000 1, refillInterval = 1,
       lastRefillTime = 0, refillPerInterval = 1000\<rparr> 9223372036854775 =
     Inr \<lparr>capacity = 1000, tokens = - 9223372036854775616, refillRate = rateOf 1000 1,
       refillInterval = 1, lastRefillTime = 9223372036854775, refillPerInterval = 1000\<rparr>"
    by (simp add: refill_def time_Sub_def maxInt64_def minInt64_def Let_def q)
       (simp add: wrap64_def)
  show ?thesis
    by (simp add: Allow_def new r)
qed

theorem Allow_overflow_negative_tokens_witness:
  "0 < exactRate 1000 1 \<and>
   (case Allow (NewTokenBucketLimiter exactRate 1000 1 0) 9223372036854775 of
      Inl p \<Rightarrow> False
    | Inr (ok, l) \<Rightarrow> \<not> ok \<and> tokens l < 0 \<and> capacity l = 1000)"
proof -
  have h: "0 < exactRate 1000 1"
    by (simp add: exactRate_def go_quot_def wrap64_def Second_def)
  show ?thesis
    using h Allow_overflow_negative_tokens [of exactRate, OF h] by simp
qed

text \<open>
  Claim C5 (below one token per second the per-token interval is
  \<open>interval / requests\<close>). In the low-rate branch the constructor stores
  \<open>time.Second / requests\<close>, whatever the configured interval was, with a quantum
  of one token: for 1 request per 10 seconds the bucket refills every second.
\<close>

theorem New_low_rate_interval:
  assumes "0 < requests" and "0 < interval" and "rateOf requests interval \<le> 0"
  shows "refillInterval (NewTokenBucketLimiter rateOf requests interval now) = go_quot Second requests
       \<and> refillPerInterval (NewTokenBucketLimiter rateOf requests interval now) = 1
       \<and> capacity (NewTokenBucketLimiter rateOf requests interval now) = requests"
  using assms by (simp add: NewTokenBucketLimiter_def Let_def)

theorem New_low_rate_interval_witness:
  "(0::int) < 1 \<and> (0::int) < 10 * Second \<and> exactRate 1 (10 * Second) \<le> 0
   \<and> refillInterval (NewTokenBucketLimiter exactRate 1 (10 * Second) 0) = Second
   \<and> refillInterval (NewTokenBucketLimiter exactRate 1 (10 * Second) 0) \<noteq> go_quot (10 * Second) 1"
proof -
  have h: "exactRate 1 (10 * Second) \<le> 0"
    by (simp add: exactRate_def go_quot_def wrap64_def Second_def)
  have p: "(0::int) < 10 * Second" by (simp add: Second_def)
  have q1: "go_quot Second 1 = Second" by (simp add: go_quot_def wrap64_def Second_def)
  have q2: "go_quot (10 * Second) 1 = 10 * Second" by (simp add: go_quot_def wrap64_def Second_def)
  have s: "Second \<noteq> 10 * Second" by (simp add: Second_def)
  show ?thesis
    using New_low_rate_interval [of 1 "10 * Second" exactRate 0, OF _ p h] h p q1 q2 s by simp
qed

section \<open>Properties of the router and the middlewares\<close>

lemma spec_compose_Inl_foldr:
  "foldr (\<lambda>m acc. case acc of Inl p \<Rightarrow> Inl p | Inr f \<Rightarrow> assertHandlerFunc (m (HandlerFunc f)))
     ms (Inr h) = spec_compose ms h"
  by (induction ms) simp_all




text \<open>
  Claim C9 (with authentication enabled and a lower-cased type other than \<open>jwt\<close>,
  the middleware calls the inner handler and writes no 401 of its own). The response
  is the inner handler's, on the same request; the state it starts from is the one
  the middleware was called with, plus a warning line when the type is neither
  \<open>oauth2\<close> nor \<open>none\<close>.
\<close>

theorem AuthMiddleware_non_jwt_passes:
  assumes "auth_Enabled (getAuthConfig w)"
    and "strings_ToLower env (auth_Type (getAuthConfig w)) \<noteq> ''jwt''"
  shows "ServeHTTP (AuthMiddleware env getAuthConfig next) w r =
           ServeHTTP next
             (if strings_ToLower env (auth_Type (getAuthConfig w)) = ''oauth2''
                 \<or> strings_ToLower env (auth_Type (getAuthConfig w)) = ''none''
              then w
              else logger Warn UnknownAuthType
                     [(''auth_type'', strings_ToLower env (auth_Type (getAuthConfig w)))] w) r"
  using assms by (simp add: AuthMiddleware_def ServeHTTP_def Let_def)

text \<open>
  Claim C3 (a reload whose configuration fails to load is aborted, and the active
  configuration and route table are as before). Whatever the event, the router comes
  back as it was and the state differs from the old one in its log alone.
\<close>

theorem reload_failure_keeps_state:
  assumes "LoadConfig env ReadFile configPath = Inl err"
  shows "watchConfigChanges_event env serviceDiscovery ReadFile configPath event (r, w) =
           Inr (r, w\<lparr>logs := logs w @
                  (if ev_Op event AND fsnotify_Write = fsnotify_Write
                      \<or> ev_Op event AND fsnotify_Create = fsnotify_Create
                      \<or> ev_Op event AND fsnotify_Remove = fsnotify_Remove
                      \<or> ev_Op event AND fsnotify_Rename = fsnotify_Rename
                   then [Log Info ConfigChanged [(''file'', ev_Name event)],
                         Log Error ConfigReloadFailed [(''error'', err)]]
                   else [])\<rparr>)"
  using assms by (simp add: watchConfigChanges_event_def logger_def Let_def)

section \<open>Properties of the proxy cache and the proxy handler\<close>

lemma GetProxy_cached: "proxies w s = Some p \<Longrightarrow> GetProxy env s w = (Inr p, w)"
  by (simp add: GetProxy_def)

lemma GetProxy_result_cached:
  "GetProxy env s w = (Inr p, w1) \<Longrightarrow> proxies w1 s = Some p"
  by (auto simp: GetProxy_def Let_def split: option.splits sum.splits)

lemma GetProxy_keeps_entry:
  "proxies w s = Some p \<Longrightarrow> proxies (snd (GetProxy env t w)) s = Some p"
  by (auto simp: GetProxy_def Let_def split: option.splits sum.splits)

lemma GetProxy_seq_keeps_entry:
  "proxies w s = Some p \<Longrightarrow> proxies (GetProxy_seq env ts w) s = Some p"
proof (induction ts arbitrary: w)
  case Nil
  then show ?case by simp
next
  case (Cons t ts)
  from Cons.prems have "proxies (snd (GetProxy env t w)) s = Some p"
    by (rule GetProxy_keeps_entry)
  then show ?case using Cons.IH by simp
qed

lemma GetProxy_first_constructs:
  "proxies w s = None \<Longrightarrow> GetProxy env s w = (Inr p, w1) \<Longrightarrow>
     p = length (heap w) \<and> length (heap w1) = Suc (length (heap w)) \<and> take (length (heap w)) (heap w1) = heap w"
  by (auto simp: GetProxy_def Let_def split: sum.splits)

text \<open>
  Claim C7 (calls of \<open>GetProxy\<close> with one target string yield one proxy instance).
  When a call returns a proxy, every later call with that string, after any number
  of calls for other strings, returns the same address and leaves the state alone; the
  first call for an uncached string allocated that proxy at a fresh address, and a call
  for a cached string returned the cached one. The cache is a map, so it holds one
  proxy per string.
\<close>

theorem GetProxy_single_instance:
  assumes "GetProxy env s w = (Inr p, w1)"
  shows "GetProxy env s (GetProxy_seq env ts w1) = (Inr p, GetProxy_seq env ts w1)
       \<and> (case proxies w s of
            None \<Rightarrow> p = length (heap w) \<and> heap w1 = heap w @ [heap w1 ! p]
          | Some q \<Rightarrow> p = q \<and> w1 = w)"
proof -
  from assms have "proxies w1 s = Some p" by (rule GetProxy_result_cached)
  then have "proxies (GetProxy_seq env ts w1) s = Some p" by (rule GetProxy_seq_keeps_entry)
  then have later: "GetProxy env s (GetProxy_seq env ts w1) = (Inr p, GetProxy_seq env ts w1)"
    by (rule GetProxy_cached)
  have first: "case proxies w s of
            None \<Rightarrow> p = length (heap w) \<and> heap w1 = heap w @ [heap w1 ! p]
          | Some q \<Rightarrow> p = q \<and> w1 = w"
    using assms by (auto simp: GetProxy_def Let_def split: option.splits sum.splits)
  from later first show ?thesis by simp
qed

lemma ProxyHandler_director_neq: "ProxyHandler_director t \<noteq> GetProxy_Director u"
proof
  assume eq: "ProxyHandler_director t = GetProxy_Director u"
  define q where "q = \<lparr>Method = [], URL = \<lparr>url_Scheme = [], url_Host = [], url_Path = []\<rparr>,
      Host = [], Header = Map.empty, ctx_timeout = None, ctx_claims = None\<rparr>"
  from eq have "Header (ProxyHandler_director t q) ''X-Gateway-Request''
              = Header (GetProxy_Director u q) ''X-Gateway-Request''" by simp
  then show False
    by (simp add: ProxyHandler_director_def GetProxy_Director_def Header_Set_def q_def)
qed

lemma ProxyHandler_errorHandler_neq: "ProxyHandler_errorHandler t \<noteq> GetProxy_ErrorHandler"
proof
  assume eq: "ProxyHandler_errorHandler t = GetProxy_ErrorHandler"
  then have "length (Body (snd (ProxyHandler_errorHandler t q [])))
           = length (Body (snd (GetProxy_ErrorHandler q [])))" for q
    by simp
  then show False
    by (simp add: ProxyHandler_errorHandler_def msg_backend_unavailable_def
          GetProxy_ErrorHandler_def msg_proxy_error_def)
qed

lemma httputil_ReverseProxy_both_fields:
  "x\<lparr>Director := a, ErrorHandler := b\<rparr> = \<lparr>Director = a, ErrorHandler = b\<rparr>"
  by (cases x) simp

text \<open>
  Claim C10 (every request served by a \<open>ProxyHandler\<close> function overwrites the
  \<open>Director\<close> and \<open>ErrorHandler\<close> of the cached proxy before forwarding). After one
  request the object at the proxy's address holds the handler's two functions, which
  differ from the pair \<open>GetProxy\<close> installed, and the request handed to the transport
  was rewritten by the new director; a request through any other handler bound to the
  same address replaces them again.
\<close>

theorem ProxyHandler_overwrites_fields:
  assumes "p < length (heap w)"
  shows "heap (fst (ProxyHandler env p t timeout w r)) =
           (heap w)[p := \<lparr>Director = ProxyHandler_director t,
                           ErrorHandler = ProxyHandler_errorHandler t\<rparr>]
       \<and> sent (fst (ProxyHandler env p t timeout w r)) =
           sent w @ [ProxyHandler_director t (r\<lparr>ctx_timeout := Some timeout\<rparr>)]
       \<and> Director (heap (fst (ProxyHandler env p t timeout w r)) ! p) \<noteq> GetProxy_Director u
       \<and> ErrorHandler (heap (fst (ProxyHandler env p t timeout w r)) ! p) \<noteq> GetProxy_ErrorHandler
       \<and> heap (fst (ProxyHandler env p t' timeout' (fst (ProxyHandler env p t timeout w r)) r')) ! p =
           \<lparr>Director = ProxyHandler_director t', ErrorHandler = ProxyHandler_errorHandler t'\<rparr>"
proof -
  let ?px = "\<lparr>Director = ProxyHandler_director t, ErrorHandler = ProxyHandler_errorHandler t\<rparr>"
  have step: "heap (fst (ProxyHandler env q s d v x)) =
           (heap v)[q := \<lparr>Director = ProxyHandler_director s,
                           ErrorHandler = ProxyHandler_errorHandler s\<rparr>]
       \<and> sent (fst (ProxyHandler env q s d v x)) =
           sent v @ [ProxyHandler_director s (x\<lparr>ctx_timeout := Some d\<rparr>)]"
    if "q < length (heap v)" for q s d v x
    using that
    by (simp add: ProxyHandler_def httputil_ServeHTTP_def Let_def httputil_ReverseProxy_both_fields
          split: sum.splits prod.splits)
  have h1: "heap (fst (ProxyHandler env p t timeout w r)) = (heap w)[p := ?px]"
    and s1: "sent (fst (ProxyHandler env p t timeout w r)) =
           sent w @ [ProxyHandler_director t (r\<lparr>ctx_timeout := Some timeout\<rparr>)]"
    using step [OF assms] by simp_all
  have len: "p < length (heap (fst (ProxyHandler env p t timeout w r)))"
    using assms h1 by simp
  have h2: "heap (fst (ProxyHandler env p t' timeout' (fst (ProxyHandler env p t timeout w r)) r')) ! p =
           \<lparr>Director = ProxyHandler_director t', ErrorHandler = ProxyHandler_errorHandler t'\<rparr>"
    using step [OF len, of t' timeout' r'] len by simp
  show ?thesis
    using h1 s1 h2 assms ProxyHandler_director_neq [of t u] ProxyHandler_errorHandler_neq [of t]
    by simp
qed

lemma example_lower: "strings_ToLower example_env ''OAuth2'' = ''oauth2''"
proof -
  have "map ascii_lower ''OAuth2'' = ''oauth2''" by code_simp
  then show ?thesis by (simp add: example_env_def)
qed

lemma example_auth:
  "Auth (currentCfg example_world) =
     \<lparr>auth_Enabled = True, auth_Type = ''OAuth2'',
      auth_JWT = \<lparr>SecretKey = ''secret''\<rparr>,
      auth_OAuth2 = \<lparr>oa_Enabled = False, TokenEndpoint = [], ClientID = [], ClientSecret = []\<rparr>\<rparr>"
  by (simp add: example_world_def example_cfg_def)

theorem AuthMiddleware_non_jwt_passes_witness:
  "auth_Enabled (Auth (currentCfg example_world))
   \<and> strings_ToLower example_env (auth_Type (Auth (currentCfg example_world))) \<noteq> ''jwt''
   \<and> ServeHTTP (AuthMiddleware example_env (\<lambda>w. Auth (currentCfg w))
          (HandlerFunc (\<lambda>w r. (w, Inr \<lparr>StatusCode = 200, Body = ''ok''\<rparr>))))
        example_world example_request
      = (example_world, Inr \<lparr>StatusCode = 200, Body = ''ok''\<rparr>)"
proof -
  have e: "auth_Enabled (Auth (currentCfg example_world))"
    by (simp add: example_auth)
  have t: "strings_ToLower example_env (auth_Type (Auth (currentCfg example_world))) = ''oauth2''"
    by (simp add: example_auth example_lower)
  have n: "strings_ToLower example_env (auth_Type (Auth (currentCfg example_world))) \<noteq> ''jwt''"
    by (simp add: t)
  show ?thesis
    using AuthMiddleware_non_jwt_passes [of "\<lambda>w. Auth (currentCfg w)" example_world example_env
        "HandlerFunc (\<lambda>w r. (w, Inr \<lparr>StatusCode = 200, Body = ''ok''\<rparr>))" example_request, OF e n]
      e n
    by (simp add: t ServeHTTP_def)
qed

lemma example_LoadConfig:
  "LoadConfig example_env (\<lambda>path. Inr ''routes: ['') ''./config/config.yaml'' = Inl ''cannot unmarshal''"
  by (simp add: LoadConfig_def example_env_def)

theorem reload_failure_keeps_state_witness:
  "LoadConfig example_env (\<lambda>path. Inr ''routes: ['') ''./config/config.yaml'' = Inl ''cannot unmarshal''
   \<and> (case watchConfigChanges_event example_env example_discovery (\<lambda>path. Inr ''routes: ['')
             ''./config/config.yaml''
             \<lparr>ev_Name = ''./config/config.yaml'', ev_Op = fsnotify_Write\<rparr>
             (\<lparr>mux_routes = [(''/api/users'', \<lambda>w r. (w, Inr \<lparr>StatusCode = 200, Body = ''ok''\<rparr>))],
               middlewares = []\<rparr>, example_world) of
         Inl p \<Rightarrow> False
       | Inr (r, w) \<Rightarrow>
           map fst (mux_routes r) = [''/api/users''] \<and> currentCfg w = example_cfg
           \<and> logs w = [Log Info ConfigChanged [(''file'', ''./config/config.yaml'')],
                       Log Error ConfigReloadFailed [(''error'', ''cannot unmarshal'')]])"
  using reload_failure_keeps_state [OF example_LoadConfig, of example_discovery
      "\<lparr>ev_Name = ''./config/config.yaml'', ev_Op = fsnotify_Write\<rparr>"
      "\<lparr>mux_routes = [(''/api/users'', \<lambda>w r. (w, Inr \<lparr>StatusCode = 200, Body = ''ok''\<rparr>))],
               middlewares = []\<rparr>" example_world]
    example_LoadConfig
  by (simp add: fsnotify_Write_def example_world_def)

lemma example_parse_5:
  "url_Parse example_env ''http://10.0.0.5:9000'' =
     Inr \<lparr>url_Scheme = ''http'', url_Host = ''10.0.0.5:9000'', url_Path = []\<rparr>"
  by (simp add: example_env_def)

lemma example_parse_6:
  "url_Parse example_env ''http://10.0.0.6:9000'' =
     Inr \<lparr>url_Scheme = ''http'', url_Host = ''10.0.0.6:9000'', url_Path = []\<rparr>"
  by (simp add: example_env_def)

lemma example_GetProxy_first:
  "GetProxy example_env ''http://10.0.0.5:9000'' example_world = (Inr 0, example_cached)"
  by (simp add: GetProxy_def example_parse_5 example_cached_def example_world_def)

lemma example_GetProxy_other:
  "GetProxy example_env ''http://10.0.0.6:9000'' example_cached =
     (Inr 1, example_cached\<lparr>heap := heap example_cached @
                 [\<lparr>Director = GetProxy_Director
                      \<lparr>url_Scheme = ''http'', url_Host = ''10.0.0.6:9000'', url_Path = []\<rparr>,
                   ErrorHandler = GetProxy_ErrorHandler\<rparr>],
               proxies := (proxies example_cached)(''http://10.0.0.6:9000'' \<mapsto> 1)\<rparr>)"
  by (simp add: GetProxy_def example_parse_6 example_cached_def example_world_def)

theorem GetProxy_single_instance_witness:
  "GetProxy example_env ''http://10.0.0.5:9000'' example_world = (Inr 0, example_cached)
   \<and> fst (GetProxy example_env ''http://10.0.0.5:9000''
         (GetProxy_seq example_env [''http://10.0.0.6:9000'', ''http://10.0.0.5:9000''] example_cached))
       = Inr 0
   \<and> length (heap (GetProxy_seq example_env [''http://10.0.0.6:9000'', ''http://10.0.0.5:9000'']
         example_cached)) = 2
   \<and> proxies example_world ''http://10.0.0.5:9000'' = None
   \<and> heap example_cached = heap example_world @ [heap example_cached ! 0]"
proof -
  let ?w2 = "GetProxy_seq example_env [''http://10.0.0.6:9000'', ''http://10.0.0.5:9000''] example_cached"
  have none: "proxies example_world ''http://10.0.0.5:9000'' = None"
    by (simp add: example_world_def)
  have h0: "length (heap example_world) = 0"
    by (simp add: example_world_def)
  from GetProxy_single_instance [OF example_GetProxy_first,
      of "[''http://10.0.0.6:9000'', ''http://10.0.0.5:9000'']"]
  have later: "GetProxy example_env ''http://10.0.0.5:9000'' ?w2 = (Inr 0, ?w2)"
    and first: "heap example_cached = heap example_world @ [heap example_cached ! 0]"
    by (simp_all add: none h0)
  have keep: "proxies (snd (GetProxy example_env ''http://10.0.0.6:9000'' example_cached))
                 ''http://10.0.0.5:9000'' = Some 0"
    by (simp add: example_GetProxy_other) (simp add: example_cached_def)
  have w2: "?w2 = snd (GetProxy example_env ''http://10.0.0.6:9000'' example_cached)"
    by (simp add: GetProxy_cached [OF keep])
  have len: "length (heap ?w2) = 2"
    unfolding w2 by (simp add: example_GetProxy_other) (simp add: example_cached_def)
  show ?thesis
    using example_GetProxy_first later first len none by simp
qed

lemma example_cached_heap: "0 < length (heap example_cached)"
  by (simp add: example_cached_def)

theorem ProxyHandler_overwrites_fields_witness:
  "0 < length (heap example_cached)
   \<and> heap example_cached =
       [\<lparr>Director = GetProxy_Director \<lparr>url_Scheme = ''http'', url_Host = ''10.0.0.5:9000'', url_Path = []\<rparr>,
         ErrorHandler = GetProxy_ErrorHandler\<rparr>]
   \<and> heap (fst (ProxyHandler example_env 0 ''http://10.0.0.5:9000'' (5 * Second)
                  example_cached example_request)) =
       [\<lparr>Director = ProxyHandler_director ''http://10.0.0.5:9000'',
         ErrorHandler = ProxyHandler_errorHandler ''http://10.0.0.5:9000''\<rparr>]
   \<and> Director (heap (fst (ProxyHandler example_env 0 ''http://10.0.0.5:9000'' (5 * Second)
                  example_cached example_request)) ! 0)
       \<noteq> GetProxy_Director \<lparr>url_Scheme = ''http'', url_Host = ''10.0.0.5:9000'', url_Path = []\<rparr>"
proof -
  let ?t = "''http://10.0.0.5:9000''"
  let ?u = "\<lparr>url_Scheme = ''http'', url_Host = ''10.0.0.5:9000'', url_Path = []\<rparr>"
  let ?w = "fst (ProxyHandler example_env 0 ?t (5 * Second) example_cached example_request)"
  have hc: "heap example_cached =
       [\<lparr>Director = GetProxy_Director ?u, ErrorHandler = GetProxy_ErrorHandler\<rparr>]"
    by (simp add: example_cached_def)
  note T = ProxyHandler_overwrites_fields [OF example_cached_heap,
      of example_env ?t "5 * Second" example_request ?u ?t "5 * Second" example_request]
  from T have a: "heap ?w = (heap example_cached)[0 := \<lparr>Director = ProxyHandler_director ?t,
                           ErrorHandler = ProxyHandler_errorHandler ?t\<rparr>]"
    by (rule conjunct1)
  from T have b: "Director (heap ?w ! 0) \<noteq> GetProxy_Director ?u"
    by blast
  from a have a': "heap ?w = [\<lparr>Director = ProxyHandler_director ?t,
                           ErrorHandler = ProxyHandler_errorHandler ?t\<rparr>]"
    by (simp add: hc)
  from example_cached_heap hc a' b show ?thesis
    by blast
qed

section \<open>Loading the routes and serving a request\<close>

lemma decimal_digit: "n < 10 \<Longrightarrow> decimal n = [digit n]"
  by (subst decimal.simps) simp

lemma decimal_more: "10 \<le> n \<Longrightarrow> decimal n = decimal (n div 10) @ [digit (n mod 10)]"
  by (subst decimal.simps) simp

lemma Itoa_9000: "Itoa 9000 = ''9000''"
  by (simp add: Itoa_def decimal_more decimal_digit digit_def)

lemma example_routes:
  "Routes (currentCfg example_world) =
     [\<lparr>route_Path = ''/api/users'', TargetURL = [], ServiceName = ''user-service'', Timeout = ''5s''\<rparr>]"
  by (simp add: example_world_def example_cfg_def)

lemma HandleFunc_no_middlewares:
  "HandleFunc \<lparr>mux_routes = [], middlewares = []\<rparr> path h = Inr \<lparr>mux_routes = [(path, h)], middlewares = []\<rparr>"
  by (simp add: HandleFunc_def applyMiddlewares.simps)

lemma GetProxy_fresh:
  assumes "url_Parse env t = Inr u" and "proxies w t = None"
  shows "GetProxy env t w =
           (Inr (length (heap w)),
            w\<lparr>heap := heap w @ [\<lparr>Director = GetProxy_Director u, ErrorHandler = GetProxy_ErrorHandler\<rparr>],
              proxies := (proxies w)(t \<mapsto> length (heap w))\<rparr>)"
  using assms by (simp add: GetProxy_def Let_def)

lemma example_body:
  assumes "url_Parse env ''http://10.0.0.5:9000'' = Inr u"
    and "proxies w ''http://10.0.0.5:9000'' = None"
    and "time_ParseDuration env ''5s'' = Inr d"
  shows "loadRoutes_body env example_discovery
            \<lparr>route_Path = ''/api/users'', TargetURL = [], ServiceName = ''user-service'', Timeout = ''5s''\<rparr>
            (\<lparr>mux_routes = [], middlewares = []\<rparr>, w) =
           Inr (\<lparr>mux_routes = [(''/api/users'', ProxyHandler env (length (heap w)) ''http://10.0.0.5:9000'' d)],
                  middlewares = []\<rparr>,
                example_loaded u d w)"
proof -
  let ?w1 = "logger Debug UsingDiscovery
                        [(''path'', ''/api/users''), (''service_name'', ''user-service''),
                         (''target_url'', ''http://10.0.0.5:9000'')] w"
  have p1: "proxies ?w1 ''http://10.0.0.5:9000'' = None"
    using assms(2) by (simp add: logger_def)
  note g = GetProxy_fresh [OF assms(1) p1]
  show ?thesis
    apply (simp only: loadRoutes_body_def example_discovery_def)
    apply (simp only: Let_def prod.case RouteConfig.simps)
    apply (simp only: list.simps if_True if_False not_False_eq_True option.case sum.case
             ServiceInstance.simps Itoa_9000 append.simps)
    apply (simp only: list.simps if_False prod.case option.case sum.case assms(3) g)
    apply (simp only: HandleFunc_no_middlewares sum.case)
    apply (simp only: logger_def example_loaded_def)
    apply simp
    done
qed

lemma example_loadRoutes:
  assumes "url_Parse env ''http://10.0.0.5:9000'' = Inr u"
    and "time_ParseDuration env ''5s'' = Inr d"
  shows "loadRoutes env example_discovery NewRouter example_world =
           Inr (\<lparr>mux_routes = [(''/api/users'', ProxyHandler env 0 ''http://10.0.0.5:9000'' d)],
                  middlewares = []\<rparr>,
                logger Info RoutesLoaded [(''route_count'', Itoa 1)]
                  (example_loaded u d example_world))"
proof -
  have p: "proxies example_world ''http://10.0.0.5:9000'' = None"
    by (simp add: example_world_def)
  have h: "length (heap example_world) = 0"
    by (simp add: example_world_def)
  have c: "ClearRoutes NewRouter = (\<lparr>mux_routes = [], middlewares = []\<rparr> :: HandlerFn Router)"
    by (simp add: ClearRoutes_def NewRouter_def)
  note b = example_body [OF assms(1) p assms(2)]
  show ?thesis
    unfolding loadRoutes_def
    apply (simp only: Let_def example_routes c loadRoutes_loop.simps b sum.case prod.case h)
    apply simp
    done
qed

lemma ProxyHandler_sent:
  assumes "p < length (heap w)"
  shows "sent (fst (ProxyHandler env p t timeout w r)) =
           sent w @ [ProxyHandler_director t (r\<lparr>ctx_timeout := Some timeout\<rparr>)]"
  using assms
  by (simp add: ProxyHandler_def httputil_ServeHTTP_def Let_def split: sum.splits prod.splits)

text \<open>
  Claim C1 (a request to \<open>/api/users\<close>, whose service resolves to host 10.0.0.5 and
  port 9000, is forwarded to \<open>http://10.0.0.5:9000/api/users\<close>). \<open>loadRoutes\<close>
  formats the target as \<open>http://10.0.0.5:9000\<close> and hands that string to
  \<open>ProxyHandler\<close>, whose director stores the whole string, scheme included, in
  \<open>req.URL.Host\<close> and \<open>req.Host\<close>: the request given to the transport has the
  scheme \<open>http\<close>, the host \<open>http://10.0.0.5:9000\<close> and the path
  \<open>/api/users\<close>.
\<close>

theorem loadRoutes_forwards_target_string_as_host:
  assumes "url_Parse env ''http://10.0.0.5:9000'' = Inr u"
    and "time_ParseDuration env ''5s'' = Inr d"
  shows "case loadRoutes env example_discovery NewRouter example_world of
           Inl p \<Rightarrow> False
         | Inr (r, w) \<Rightarrow>
             sent (fst (Router_ServeHTTP r w example_request)) =
               [\<lparr>Method = ''GET'',
                 URL = \<lparr>url_Scheme = ''http'', url_Host = ''http://10.0.0.5:9000'',
                         url_Path = ''/api/users''\<rparr>,
                 Host = ''http://10.0.0.5:9000'',
                 Header = [''X-Gateway-Request'' \<mapsto> ''true''],
                 ctx_timeout = Some d, ctx_claims = None\<rparr>]"
proof -
  let ?w = "logger Info RoutesLoaded [(''route_count'', Itoa 1)] (example_loaded u d example_world)"
  have hp: "0 < length (heap ?w)" and s0: "sent ?w = []"
    by (simp_all add: logger_def example_loaded_def example_world_def)
  have sv: "Router_ServeHTTP \<lparr>mux_routes = [(''/api/users'', ProxyHandler env 0 ''http://10.0.0.5:9000'' d)],
                  middlewares = []\<rparr> ?w example_request
          = ProxyHandler env 0 ''http://10.0.0.5:9000'' d ?w example_request"
    by (simp add: Router_ServeHTTP_def example_request_def)
  have dr: "ProxyHandler_director ''http://10.0.0.5:9000'' (example_request\<lparr>ctx_timeout := Some d\<rparr>) =
               \<lparr>Method = ''GET'',
                 URL = \<lparr>url_Scheme = ''http'', url_Host = ''http://10.0.0.5:9000'',
                         url_Path = ''/api/users''\<rparr>,
                 Host = ''http://10.0.0.5:9000'',
                 Header = [''X-Gateway-Request'' \<mapsto> ''true''],
                 ctx_timeout = Some d, ctx_claims = None\<rparr>"
    by (simp add: ProxyHandler_director_def example_request_def Header_Set_def)
  have "sent (fst (ProxyHandler env 0 ''http://10.0.0.5:9000'' d ?w example_request)) =
          sent ?w @ [ProxyHandler_director ''http://10.0.0.5:9000'' (example_request\<lparr>ctx_timeout := Some d\<rparr>)]"
    by (rule ProxyHandler_sent [OF hp])
  then show ?thesis
    by (simp only: example_loadRoutes [OF assms] sum.case prod.case sv s0 dr append_Nil)
qed

theorem loadRoutes_forwards_target_string_as_host_witness:
  "url_Parse example_env ''http://10.0.0.5:9000'' =
     Inr \<lparr>url_Scheme = ''http'', url_Host = ''10.0.0.5:9000'', url_Path = []\<rparr>
   \<and> time_ParseDuration example_env ''5s'' = Inr (5 * Second)
   \<and> (case loadRoutes example_env example_discovery NewRouter example_world of
         Inl p \<Rightarrow> False
       | Inr (r, w) \<Rightarrow>
           map (\<lambda>q. (url_Scheme (URL q), url_Host (URL q), url_Path (URL q)))
             (sent (fst (Router_ServeHTTP r w example_request)))
           = [(''http'', ''http://10.0.0.5:9000'', ''/api/users'')]
           \<and> map (\<lambda>q. url_Host (URL q)) (sent (fst (Router_ServeHTTP r w example_request)))
               \<noteq> [''10.0.0.5:9000''])"
proof -
  have a: "url_Parse example_env ''http://10.0.0.5:9000'' =
     Inr \<lparr>url_Scheme = ''http'', url_Host = ''10.0.0.5:9000'', url_Path = []\<rparr>"
    by (simp add: example_env_def)
  have b: "time_ParseDuration example_env ''5s'' = Inr (5 * Second)"
    by (simp add: example_env_def)
  note T = loadRoutes_forwards_target_string_as_host [OF a b]
  show ?thesis
  proof (cases "loadRoutes example_env example_discovery NewRouter example_world")
    case (Inl p)
    with T show ?thesis by simp
  next
    case (Inr rw)
    obtain r w where rw: "rw = (r, w)" by (cases rw)
    from T Inr rw have "sent (fst (Router_ServeHTTP r w example_request)) =
               [\<lparr>Method = ''GET'',
                 URL = \<lparr>url_Scheme = ''http'', url_Host = ''http://10.0.0.5:9000'',
                         url_Path = ''/api/users''\<rparr>,
                 Host = ''http://10.0.0.5:9000'',
                 Header = [''X-Gateway-Request'' \<mapsto> ''true''],
                 ctx_timeout = Some (5 * Second), ctx_claims = None\<rparr>]"
      by simp
    then show ?thesis using a b Inr rw by simp
  qed
qed

section \<open>Interleaved calls of Allow and states exposed by a reload\<close>

lemma Allow_steps_agree:
  "run_schedule [0, 0, 0] (limiter, [Allow_call now]) =
     (case Allow limiter now of
        Inl p \<Rightarrow> (limiter, [\<lparr>g_pc = Panicked p, g_now = now\<rparr>])
      | Inr (ok, l1) \<Rightarrow> (l1, [\<lparr>g_pc = Returned ok, g_now = now\<rparr>]))"
  by (cases "refill limiter now")
     (simp_all add: Allow_def Allow_step_def Allow_call_def)

lemma loadRoutes_loop_states_last:
  "loadRoutes_loop env serviceDiscovery routes rw = Inr rw' \<Longrightarrow>
     last (rw # loadRoutes_loop_states env serviceDiscovery routes rw) = rw'"
proof (induction routes arbitrary: rw)
  case Nil
  then show ?case by simp
next
  case (Cons route routes)
  then show ?case
    by (cases "loadRoutes_body env serviceDiscovery route rw") simp_all
qed

lemma loadRoutes_states_last:
  assumes "loadRoutes env serviceDiscovery r w = Inr (r', w')"
  shows "fst (last (loadRoutes_states env serviceDiscovery r w)) = r'"
proof -
  from assms obtain w2 where
    l: "loadRoutes_loop env serviceDiscovery (Routes (currentCfg w)) (ClearRoutes r, w) = Inr (r', w2)"
    by (auto simp: loadRoutes_def Let_def split: sum.splits prod.splits)
  from loadRoutes_loop_states_last [OF l] show ?thesis
    by (simp add: loadRoutes_states_def)
qed

lemma refill_not_due:
  "time_Sub now (lastRefillTime l) < refillInterval l \<Longrightarrow> refill l now = Inr l"
  by (simp add: refill_def Let_def)

text \<open>
  Claim C6 (concurrent calls of \<open>Allow\<close> on one limiter are serialized). With one
  token left and no refill due, two calls whose steps alternate both pass the test
  \<open>tokens > 0\<close> before either decrements: both return true and the count ends at
  \<open>-1\<close>. The same two calls made one after the other admit one request and leave 0.
\<close>

theorem Allow_interleaving_admits_two:
  assumes "tokens l = 1" and "time_Sub now (lastRefillTime l) < refillInterval l"
  shows "run_schedule [0, 1, 0, 1, 0, 1] (l, [Allow_call now, Allow_call now]) =
           (l\<lparr>tokens := - 1\<rparr>,
            [\<lparr>g_pc = Returned True, g_now = now\<rparr>, \<lparr>g_pc = Returned True, g_now = now\<rparr>])
       \<and> Allow_seq l [now, now] = Inr ([True, False], l\<lparr>tokens := 0\<rparr>)"
proof -
  have r0: "refill l now = Inr l"
    using assms(2) by (rule refill_not_due)
  have r1: "refill (l\<lparr>tokens := 0\<rparr>) now = Inr (l\<lparr>tokens := 0\<rparr>)"
    using assms(2) by (simp add: refill_not_due)
  have w0: "wrap64 0 = 0" and w1: "wrap64 (- 1) = - 1"
    by (simp_all add: wrap64_def)
  have conc: "run_schedule [0, 1, 0, 1, 0, 1] (l, [Allow_call now, Allow_call now]) =
           (l\<lparr>tokens := - 1\<rparr>,
            [\<lparr>g_pc = Returned True, g_now = now\<rparr>, \<lparr>g_pc = Returned True, g_now = now\<rparr>])"
    by (simp add: Allow_step_def Allow_call_def r0 assms(1) w0 w1)
  have seq: "Allow_seq l [now, now] = Inr ([True, False], l\<lparr>tokens := 0\<rparr>)"
    by (simp add: Allow_def r0 r1 assms(1) w0)
  from conc seq show ?thesis by simp
qed

theorem Allow_interleaving_admits_two_witness:
  "tokens (NewTokenBucketLimiter exactRate 1 Second 0) = 1
   \<and> time_Sub 0 (lastRefillTime (NewTokenBucketLimiter exactRate 1 Second 0))
       < refillInterval (NewTokenBucketLimiter exactRate 1 Second 0)
   \<and> map g_pc (snd (run_schedule [0, 1, 0, 1, 0, 1]
         (NewTokenBucketLimiter exactRate 1 Second 0, [Allow_call 0, Allow_call 0])))
       = [Returned True, Returned True]
   \<and> tokens (fst (run_schedule [0, 1, 0, 1, 0, 1]
         (NewTokenBucketLimiter exactRate 1 Second 0, [Allow_call 0, Allow_call 0]))) = - 1
   \<and> (case Allow_seq (NewTokenBucketLimiter exactRate 1 Second 0) [0, 0] of
         Inl p \<Rightarrow> False
       | Inr (oks, l) \<Rightarrow> oks = [True, False] \<and> tokens l = 0)"
proof -
  have new: "NewTokenBucketLimiter exactRate 1 Second 0 =
      \<lparr>capacity = 1, tokens = 1, refillRate = 1, refillInterval = 1000000000,
       lastRefillTime = 0, refillPerInterval = 1\<rparr>"
    by (simp add: NewTokenBucketLimiter_def exactRate_def go_quot_def wrap64_def Second_def Let_def)
  have a: "tokens (NewTokenBucketLimiter exactRate 1 Second 0) = 1"
    by (simp add: new)
  have b: "time_Sub 0 (lastRefillTime (NewTokenBucketLimiter exactRate 1 Second 0))
       < refillInterval (NewTokenBucketLimiter exactRate 1 Second 0)"
    by (simp add: new time_Sub_def maxInt64_def minInt64_def)
  from Allow_interleaving_admits_two [OF a b] a b show ?thesis
    by simp
qed

lemma loadRoutes_states_cleared:
  "ClearRoutes r = ClearRoutes r2 \<Longrightarrow>
     loadRoutes_states env serviceDiscovery r w = loadRoutes_states env serviceDiscovery r2 w"
  by (simp add: loadRoutes_states_def)

lemma loadRoutes_cleared:
  "ClearRoutes r = ClearRoutes r2 \<Longrightarrow>
     loadRoutes env serviceDiscovery r w = loadRoutes env serviceDiscovery r2 w"
  by (simp add: loadRoutes_def)

lemma Router_ServeHTTP_cleared:
  "Router_ServeHTTP (ClearRoutes r) w req = (w, Inr (http_Error ''404 page not found'' StatusNotFound))"
  by (simp add: Router_ServeHTTP_def ClearRoutes_def)

text \<open>
  Claim C2 (during a rebuild a reader sees the complete old table or the complete new
  one). The first state \<open>loadRoutes\<close> exposes is the router just after
  \<open>ClearRoutes\<close>: its table is empty, which is neither the old table nor the new one
  when both have routes, and every request served from it gets the router's 404. The
  last state exposed is the router \<open>loadRoutes\<close> returns.
\<close>

theorem loadRoutes_exposes_cleared_table:
  assumes "mux_routes r \<noteq> []"
    and "loadRoutes env serviceDiscovery r w = Inr (r', w')"
    and "mux_routes r' \<noteq> []"
  shows "hd (loadRoutes_states env serviceDiscovery r w) = (ClearRoutes r, w)
       \<and> fst (last (loadRoutes_states env serviceDiscovery r w)) = r'
       \<and> mux_routes (fst (hd (loadRoutes_states env serviceDiscovery r w))) \<noteq> mux_routes r
       \<and> mux_routes (fst (hd (loadRoutes_states env serviceDiscovery r w))) \<noteq> mux_routes r'
       \<and> Router_ServeHTTP (fst (hd (loadRoutes_states env serviceDiscovery r w))) w req =
           (w, Inr (http_Error ''404 page not found'' StatusNotFound))"
proof -
  have h: "hd (loadRoutes_states env serviceDiscovery r w) = (ClearRoutes r, w)"
    by (simp add: loadRoutes_states_def)
  have e: "mux_routes (ClearRoutes r) = []"
    by (simp add: ClearRoutes_def)
  from assms(1) assms(3) e have n: "mux_routes (ClearRoutes r) \<noteq> mux_routes r"
    "mux_routes (ClearRoutes r) \<noteq> mux_routes r'"
    by simp_all
  from h n loadRoutes_states_last [OF assms(2)] Router_ServeHTTP_cleared [of r w req]
  show ?thesis by simp
qed

lemma example_body_cached:
  assumes "proxies w ''http://10.0.0.5:9000'' = Some p"
    and "time_ParseDuration env ''5s'' = Inr d"
  shows "loadRoutes_body env example_discovery
            \<lparr>route_Path = ''/api/users'', TargetURL = [], ServiceName = ''user-service'', Timeout = ''5s''\<rparr>
            (\<lparr>mux_routes = [], middlewares = []\<rparr>, w) =
           Inr (\<lparr>mux_routes = [(''/api/users'', ProxyHandler env p ''http://10.0.0.5:9000'' d)],
                  middlewares = []\<rparr>,
                w\<lparr>logs := logs w @
                  [Log Debug UsingDiscovery
                     [(''path'', ''/api/users''), (''service_name'', ''user-service''),
                      (''target_url'', ''http://10.0.0.5:9000'')],
                   Log Info RouteRegistered
                     [(''path'', ''/api/users''), (''target_url'', ''http://10.0.0.5:9000''),
                      (''timeout'', Itoa d)]]\<rparr>)"
proof -
  let ?w1 = "logger Debug UsingDiscovery
                        [(''path'', ''/api/users''), (''service_name'', ''user-service''),
                         (''target_url'', ''http://10.0.0.5:9000'')] w"
  have p1: "proxies ?w1 ''http://10.0.0.5:9000'' = Some p"
    using assms(1) by (simp add: logger_def)
  note g = GetProxy_cached [OF p1]
  show ?thesis
    apply (simp only: loadRoutes_body_def example_discovery_def)
    apply (simp only: Let_def prod.case RouteConfig.simps)
    apply (simp only: list.simps if_True if_False not_False_eq_True option.case sum.case
             ServiceInstance.simps Itoa_9000 append.simps)
    apply (simp only: list.simps if_False prod.case option.case sum.case assms(2) g)
    apply (simp only: HandleFunc_no_middlewares sum.case)
    apply (simp only: logger_def)
    apply simp
    done
qed

lemma example_reload:
  "\<exists>w'. loadRoutes example_env example_discovery (example_router example_env) example_serving =
           Inr (example_router example_env, w')"
proof -
  have p: "proxies example_serving ''http://10.0.0.5:9000'' = Some 0"
    by (simp add: example_serving_def logger_def example_loaded_def example_world_def)
  have d: "time_ParseDuration example_env ''5s'' = Inr (5 * Second)"
    by (simp add: example_env_def)
  have c: "ClearRoutes (example_router example_env) = \<lparr>mux_routes = [], middlewares = []\<rparr>"
    by (simp add: ClearRoutes_def example_router_def)
  have rs: "Routes (currentCfg example_serving) =
     [\<lparr>route_Path = ''/api/users'', TargetURL = [], ServiceName = ''user-service'', Timeout = ''5s''\<rparr>]"
    by (simp add: example_serving_def logger_def example_loaded_def example_routes)
  note b = example_body_cached [OF p d]
  show ?thesis
    unfolding loadRoutes_def
    apply (simp only: Let_def rs c loadRoutes_loop.simps b sum.case prod.case)
    apply (simp add: example_router_def)
    done
qed

theorem loadRoutes_exposes_cleared_table_witness:
  "mux_routes (example_router example_env) \<noteq> []
   \<and> (\<exists>w'. loadRoutes example_env example_discovery (example_router example_env) example_serving
             = Inr (example_router example_env, w'))
   \<and> mux_routes (fst (hd (loadRoutes_states example_env example_discovery
         (example_router example_env) example_serving))) = []
   \<and> fst (last (loadRoutes_states example_env example_discovery
         (example_router example_env) example_serving)) = example_router example_env
   \<and> Router_ServeHTTP (fst (hd (loadRoutes_states example_env example_discovery
         (example_router example_env) example_serving))) example_serving example_request
       = (example_serving, Inr \<lparr>StatusCode = 404, Body = ''404 page not found'' @ [CHR 0x0A]\<rparr>)"
proof -
  have n: "mux_routes (example_router example_env) \<noteq> []"
    by (simp add: example_router_def)
  from example_reload obtain w' where
    l: "loadRoutes example_env example_discovery (example_router example_env) example_serving
          = Inr (example_router example_env, w')" ..
  note T = loadRoutes_exposes_cleared_table [OF n l n, of example_request]
  have e: "mux_routes (ClearRoutes (example_router example_env)) = []"
    by (simp add: ClearRoutes_def)
  from T have h: "hd (loadRoutes_states example_env example_discovery
         (example_router example_env) example_serving) = (ClearRoutes (example_router example_env), example_serving)"
    by (rule conjunct1)
  from T n l e show ?thesis
    by (simp add: h http_Error_def StatusNotFound_def)
qed

section \<open>The token bucket without overflow, and with a zero interval\<close>

lemma go_quot_pos: "0 \<le> a \<Longrightarrow> 0 < b \<Longrightarrow> a \<le> maxInt64 \<Longrightarrow> go_quot a b = a div b"
proof -
  assume a: "0 \<le> a" and b: "0 < b" and m: "a \<le> maxInt64"
  have q0: "0 \<le> a div b" using a b by (simp add: pos_imp_zdiv_nonneg_iff)
  have q1: "a div b \<le> a" using a b
    by (metis div_by_1 int_one_le_iff_zero_less zdiv_mono2 zero_less_one)
  have s: "sgn a * sgn b * (\<bar>a\<bar> div \<bar>b\<bar>) = a div b"
  proof (cases "a = 0")
    case True
    then show ?thesis by simp
  next
    case False
    with a have "0 < a" by simp
    with b show ?thesis by simp
  qed
  have "wrap64 (a div b) = a div b"
    using q0 q1 m by (intro wrap64_id) (simp_all add: minInt64_def)
  with s show ?thesis by (simp add: go_quot_def)
qed

lemma time_Sub_le: "time_Sub t u \<le> maxInt64"
  by (simp add: time_Sub_def Let_def maxInt64_def minInt64_def)

lemma refill_bounded:
  assumes inv: "tokens_bounded l" and fits: "refill_fits l now" and r: "refill l now = Inr l1"
  shows "tokens_bounded l1 \<and> capacity l1 = capacity l"
proof (cases "time_Sub now (lastRefillTime l) \<ge> refillInterval l")
  case False
  with r have "l1 = l" by (simp add: refill_def Let_def)
  with inv show ?thesis by simp
next
  case True
  let ?e = "time_Sub now (lastRefillTime l)"
  from True r have nz: "refillInterval l \<noteq> 0"
    by (auto simp: refill_def Let_def split: if_splits)
  with inv have ipos: "0 < refillInterval l" by (simp add: tokens_bounded_def)
  from True ipos have epos: "0 \<le> ?e" by simp
  have q: "go_quot ?e (refillInterval l) = ?e div refillInterval l"
    using epos ipos time_Sub_le by (rule go_quot_pos)
  have qpos: "0 \<le> ?e div refillInterval l"
    using epos ipos by (simp add: pos_imp_zdiv_nonneg_iff)
  from inv have ppos: "0 \<le> refillPerInterval l" and tpos: "0 \<le> tokens l"
    and tcap: "tokens l \<le> capacity l" and cmax: "capacity l \<le> maxInt64"
    by (simp_all add: tokens_bounded_def)
  have addpos: "0 \<le> (?e div refillInterval l) * refillPerInterval l"
    using qpos ppos by simp
  from fits True have sum: "tokens l + (?e div refillInterval l) * refillPerInterval l \<le> maxInt64"
    by (simp add: refill_fits_def Let_def)
  have w1: "wrap64 ((?e div refillInterval l) * refillPerInterval l) = (?e div refillInterval l) * refillPerInterval l"
    using addpos sum tpos by (intro wrap64_id) (simp_all add: minInt64_def)
  have w2: "wrap64 (tokens l + (?e div refillInterval l) * refillPerInterval l)
              = tokens l + (?e div refillInterval l) * refillPerInterval l"
    using addpos sum tpos by (intro wrap64_id) (simp_all add: minInt64_def)
  from True nz r have l1: "l1 = l\<lparr>tokens :=
        (if tokens l + (?e div refillInterval l) * refillPerInterval l > capacity l then capacity l
         else tokens l + (?e div refillInterval l) * refillPerInterval l),
       lastRefillTime := now\<rparr>"
    by (auto simp: refill_def Let_def q w1 w2)
  show ?thesis
    using inv addpos tpos tcap by (auto simp: l1 tokens_bounded_def)
qed

lemma Allow_bounded:
  assumes inv: "tokens_bounded l" and fits: "refill_fits l now" and a: "Allow l now = Inr (ok, l1)"
  shows "tokens_bounded l1 \<and> capacity l1 = capacity l"
proof -
  from a obtain l0 where r: "refill l now = Inr l0"
    by (cases "refill l now") (simp_all add: Allow_def)
  from refill_bounded [OF inv fits r] have b0: "tokens_bounded l0" and c0: "capacity l0 = capacity l"
    by simp_all
  show ?thesis
  proof (cases "tokens l0 > 0")
    case True
    from b0 True have "wrap64 (tokens l0 - 1) = tokens l0 - 1"
      by (intro wrap64_id) (simp_all add: tokens_bounded_def minInt64_def maxInt64_def)
    with a r True b0 c0 show ?thesis
      by (auto simp: Allow_def tokens_bounded_def)
  next
    case False
    with a r b0 c0 show ?thesis by (auto simp: Allow_def)
  qed
qed

text \<open>
  As long as no refill overflows, every sequence of \<open>Allow()\<close> calls that returns
  keeps the token count within \<open>[0, capacity]\<close> and the capacity unchanged; a
  constructed limiter starts within these bounds.
\<close>

theorem Allow_seq_tokens_bounded:
  assumes "tokens_bounded l" and "refills_fit l nows" and "Allow_seq l nows = Inr (oks, l1)"
  shows "0 \<le> tokens l1 \<and> tokens l1 \<le> capacity l1 \<and> capacity l1 = capacity l"
proof -
  have "tokens_bounded l1 \<and> capacity l1 = capacity l"
    using assms
  proof (induction nows arbitrary: l oks)
    case Nil
    then show ?case by simp
  next
    case (Cons now nows)
    from Cons.prems(3) obtain ok l0 oks0 where
      a: "Allow l now = Inr (ok, l0)" and s: "Allow_seq l0 nows = Inr (oks0, l1)"
      by (auto split: sum.splits prod.splits)
    from Cons.prems(2) a have f: "refill_fits l now" and fs: "refills_fit l0 nows"
      by simp_all
    from Allow_bounded [OF Cons.prems(1) f a] have b0: "tokens_bounded l0" and c0: "capacity l0 = capacity l"
      by simp_all
    from Cons.IH [OF b0 fs s] c0 show ?case by simp
  qed
  then show ?thesis by (simp add: tokens_bounded_def)
qed

lemma New_tokens_bounded:
  assumes "requests \<le> maxInt64" and "interval \<le> maxInt64"
  shows "tokens_bounded (NewTokenBucketLimiter rateOf requests interval now)"
proof -
  have s: "0 \<le> go_quot Second r" if "0 < r" "r \<le> maxInt64" for r
  proof -
    have "go_quot Second r = Second div r"
      using that by (intro go_quot_pos) (simp_all add: Second_def maxInt64_def)
    moreover have "0 \<le> Second div r"
      using that by (simp add: pos_imp_zdiv_nonneg_iff Second_def)
    ultimately show ?thesis by simp
  qed
  have s100: "0 \<le> go_quot Second 100"
    by (rule s) (simp_all add: maxInt64_def)
  show ?thesis
    using assms s [of requests] s100
    by (auto simp: NewTokenBucketLimiter_def tokens_bounded_def Let_def Second_def maxInt64_def)
qed

theorem Allow_seq_tokens_bounded_witness:
  "tokens_bounded (NewTokenBucketLimiter exactRate 5 Second 0)
   \<and> refills_fit (NewTokenBucketLimiter exactRate 5 Second 0) [0, 0, 0, 0, 0, 0, 1000000000]
   \<and> (case Allow_seq (NewTokenBucketLimiter exactRate 5 Second 0) [0, 0, 0, 0, 0, 0, 1000000000] of
         Inl p \<Rightarrow> False
       | Inr (oks, l) \<Rightarrow>
           oks = [True, True, True, True, True, False, True] \<and> tokens l = 4 \<and> capacity l = 5)"
proof -
  have new: "NewTokenBucketLimiter exactRate 5 Second 0 =
      \<lparr>capacity = 5, tokens = 5, refillRate = 5, refillInterval = 1000000000,
       lastRefillTime = 0, refillPerInterval = 5\<rparr>"
    by (simp add: NewTokenBucketLimiter_def exactRate_def go_quot_def wrap64_def Second_def Let_def)
  have nr: "refill \<lparr>capacity = 5, tokens = t, refillRate = 5, refillInterval = 1000000000,
       lastRefillTime = 0, refillPerInterval = 5\<rparr> 0 = Inr \<lparr>capacity = 5, tokens = t, refillRate = 5, refillInterval = 1000000000,
       lastRefillTime = 0, refillPerInterval = 5\<rparr>" for t
    by (simp add: refill_def time_Sub_def maxInt64_def minInt64_def Let_def)
  have rf: "refill \<lparr>capacity = 5, tokens = 0, refillRate = 5, refillInterval = 1000000000,
       lastRefillTime = 0, refillPerInterval = 5\<rparr> 1000000000 = Inr \<lparr>capacity = 5, tokens = 5, refillRate = 5, refillInterval = 1000000000,
       lastRefillTime = 1000000000, refillPerInterval = 5\<rparr>"
    by (simp add: refill_def time_Sub_def maxInt64_def minInt64_def Let_def go_quot_def wrap64_def)
  have w: "wrap64 4 = 4" "wrap64 3 = 3" "wrap64 2 = 2" "wrap64 1 = 1" "wrap64 0 = 0"
    by (simp_all add: wrap64_def)
  have seq: "Allow_seq (NewTokenBucketLimiter exactRate 5 Second 0) [0, 0, 0, 0, 0, 0, 1000000000] =
      Inr ([True, True, True, True, True, False, True],
           \<lparr>capacity = 5, tokens = 4, refillRate = 5, refillInterval = 1000000000,
            lastRefillTime = 1000000000, refillPerInterval = 5\<rparr>)"
    by (simp add: new Allow_def nr rf w)
  have b: "tokens_bounded (NewTokenBucketLimiter exactRate 5 Second 0)"
    by (simp add: new tokens_bounded_def maxInt64_def)
  have f: "refills_fit (NewTokenBucketLimiter exactRate 5 Second 0) [0, 0, 0, 0, 0, 0, 1000000000]"
    by (simp add: new Allow_def nr rf w refill_fits_def time_Sub_def maxInt64_def minInt64_def Let_def)
  from Allow_seq_tokens_bounded [OF b f seq] b f seq show ?thesis
    by simp
qed

text \<open>
  A limiter for more than \<open>10^9\<close> requests whose rate falls below one per second gets
  the refill interval \<open>time.Second / requests = 0\<close>, and its first \<open>Allow()\<close> panics
  on the division by that interval.
\<close>

theorem Allow_zero_interval_panics:
  assumes "Second < requests" and "0 < interval" and "requests \<le> maxInt64"
    and "rateOf requests interval \<le> 0" and "created \<le> now"
  shows "Allow (NewTokenBucketLimiter rateOf requests interval created) now = Inl DivideByZero"
proof -
  have q: "go_quot Second requests = Second div requests"
    using assms(1,3) by (intro go_quot_pos) (simp_all add: Second_def maxInt64_def)
  have z: "Second div requests = 0"
    using assms(1) by (simp add: Second_def)
  have req: "0 < requests" using assms(1) by (simp add: Second_def)
  have e: "0 \<le> time_Sub now created"
    using assms(5) by (simp add: time_Sub_def Let_def maxInt64_def minInt64_def)
  show ?thesis
    using assms(2,4) req e
    by (simp add: Allow_def refill_def NewTokenBucketLimiter_def Let_def q z)
qed

theorem Allow_zero_interval_panics_witness:
  "Second < 2000000000 \<and> (0::int) < 3000000000 * Second \<and> 2000000000 \<le> maxInt64
   \<and> exactRate 2000000000 (3000000000 * Second) \<le> 0 \<and> (0::int) \<le> 5
   \<and> Allow (NewTokenBucketLimiter exactRate 2000000000 (3000000000 * Second) 0) 5 = Inl DivideByZero"
proof -
  have a: "Second < 2000000000" and b: "(0::int) < 3000000000 * Second"
    and c: "2000000000 \<le> maxInt64" and e: "(0::int) \<le> 5"
    by (simp_all add: Second_def maxInt64_def)
  have d: "exactRate 2000000000 (3000000000 * Second) \<le> 0"
    by (simp add: exactRate_def go_quot_def wrap64_def Second_def)
  from Allow_zero_interval_panics [of 2000000000 "3000000000 * Second" exactRate 0 5, OF a b c d e]
    a b c d e show ?thesis
    by simp
qed

end
